theory Spec2Isabelle
  imports Complex_Main
begin

section \<open>JavaScript numbers\<close>

text \<open>
  A JavaScript number is a finite value, one of the two infinities, or NaN. Finite values
  are modelled as reals and the arithmetic on them is exact: rounding, overflow to an
  infinity and the sign of zero are not modelled. The special values follow IEEE 754:
  NaN is contagious, \<open>Infinity - Infinity\<close> and \<open>0 * Infinity\<close> are NaN, and the sine and
  cosine of an infinity are NaN. A decimal literal such as \<open>5.2\<close> is read as the fraction
  it spells.
\<close>

datatype jsnum = Fin real | PInf | NInf | NaN

fun isNaN :: "jsnum \<Rightarrow> bool" where
  "isNaN NaN = True"
| "isNaN _ = False"

fun isFinite :: "jsnum \<Rightarrow> bool" where
  "isFinite (Fin a) = True"
| "isFinite _ = False"

fun js_neg :: "jsnum \<Rightarrow> jsnum" where
  "js_neg (Fin a) = Fin (- a)"
| "js_neg PInf = NInf"
| "js_neg NInf = PInf"
| "js_neg NaN = NaN"

fun js_add :: "jsnum \<Rightarrow> jsnum \<Rightarrow> jsnum" where
  "js_add (Fin a) (Fin b) = Fin (a + b)"
| "js_add NaN _ = NaN"
| "js_add _ NaN = NaN"
| "js_add PInf NInf = NaN"
| "js_add NInf PInf = NaN"
| "js_add PInf _ = PInf"
| "js_add NInf _ = NInf"
| "js_add _ PInf = PInf"
| "js_add _ NInf = NInf"

definition js_sub :: "jsnum \<Rightarrow> jsnum \<Rightarrow> jsnum" where
  "js_sub a b = js_add a (js_neg b)"

text \<open>The sign of an infinite product; a zero factor gives NaN.\<close>

definition inf_times :: "bool \<Rightarrow> real \<Rightarrow> jsnum" where
  "inf_times positive a =
     (if a = 0 then NaN else if (0 < a) = positive then PInf else NInf)"

fun js_mul :: "jsnum \<Rightarrow> jsnum \<Rightarrow> jsnum" where
  "js_mul (Fin a) (Fin b) = Fin (a * b)"
| "js_mul NaN _ = NaN"
| "js_mul _ NaN = NaN"
| "js_mul PInf (Fin b) = inf_times True b"
| "js_mul NInf (Fin b) = inf_times False b"
| "js_mul (Fin a) PInf = inf_times True a"
| "js_mul (Fin a) NInf = inf_times False a"
| "js_mul PInf PInf = PInf"
| "js_mul NInf NInf = PInf"
| "js_mul PInf NInf = NInf"
| "js_mul NInf PInf = NInf"

text \<open>Division; a zero divisor counts as \<open>+0\<close>.\<close>

fun js_div :: "jsnum \<Rightarrow> jsnum \<Rightarrow> jsnum" where
  "js_div (Fin a) (Fin b) =
     (if b \<noteq> 0 then Fin (a / b)
      else if a = 0 then NaN else if 0 < a then PInf else NInf)"
| "js_div NaN _ = NaN"
| "js_div _ NaN = NaN"
| "js_div (Fin a) PInf = Fin 0"
| "js_div (Fin a) NInf = Fin 0"
| "js_div PInf (Fin b) = (if 0 \<le> b then PInf else NInf)"
| "js_div NInf (Fin b) = (if 0 \<le> b then NInf else PInf)"
| "js_div _ _ = NaN"

fun Math_sqrt :: "jsnum \<Rightarrow> jsnum" where
  "Math_sqrt (Fin a) = (if a < 0 then NaN else Fin (sqrt a))"
| "Math_sqrt PInf = PInf"
| "Math_sqrt _ = NaN"

fun Math_sin :: "jsnum \<Rightarrow> jsnum" where
  "Math_sin (Fin a) = Fin (sin a)"
| "Math_sin _ = NaN"

fun Math_cos :: "jsnum \<Rightarrow> jsnum" where
  "Math_cos (Fin a) = Fin (cos a)"
| "Math_cos _ = NaN"

text \<open>
  \<open>Math.PI\<close> is not \<open>\<pi>\<close>: the language fixes it as the double nearest to \<open>\<pi>\<close>,
  3.141592653589793115997963..., which is \<open>884279719003555 / 2^48\<close> and lies a little
  below \<open>\<pi>\<close>. The difference is observable in the program (\<open>Math.sin(Math.PI)\<close> is about
  \<open>1.22e-16\<close> and \<open>Math.cos(Math.PI / 2)\<close> about \<open>6.1e-17\<close>, neither is zero), so the
  constant is modelled by its value.
\<close>

definition Math_PI :: real where
  "Math_PI = 884279719003555 / 281474976710656"

text \<open>The truthiness of a number, as \<open>||\<close> tests it: zero and NaN are falsy.\<close>

fun truthy :: "jsnum \<Rightarrow> bool" where
  "truthy (Fin a) = (a \<noteq> 0)"
| "truthy NaN = False"
| "truthy _ = True"

section \<open>The vector and matrix operations used by the trail\<close>

text \<open>
  \<open>THREE.Vector3\<close> and \<open>THREE.Matrix4\<close> with the operations \<open>updateOrbitLine\<close> calls,
  each as the library computes it. The matrix is kept by its row-major entries.
\<close>

datatype vec = Vector3 (vx: jsnum) (vy: jsnum) (vz: jsnum)

datatype matrix4 = Matrix4
  (n11: jsnum) (n12: jsnum) (n13: jsnum) (n14: jsnum)
  (n21: jsnum) (n22: jsnum) (n23: jsnum) (n24: jsnum)
  (n31: jsnum) (n32: jsnum) (n33: jsnum) (n34: jsnum)
  (n41: jsnum) (n42: jsnum) (n43: jsnum) (n44: jsnum)

fun subVectors :: "vec \<Rightarrow> vec \<Rightarrow> vec" where
  "subVectors (Vector3 ax ay az) (Vector3 bx by bz) =
     Vector3 (js_sub ax bx) (js_sub ay by) (js_sub az bz)"

fun crossVectors :: "vec \<Rightarrow> vec \<Rightarrow> vec" where
  "crossVectors (Vector3 ax ay az) (Vector3 bx by bz) =
     Vector3 (js_sub (js_mul ay bz) (js_mul az by))
             (js_sub (js_mul az bx) (js_mul ax bz))
             (js_sub (js_mul ax by) (js_mul ay bx))"

fun vlength :: "vec \<Rightarrow> jsnum" where
  "vlength (Vector3 a b c) =
     Math_sqrt (js_add (js_add (js_mul a a) (js_mul b b)) (js_mul c c))"

fun multiplyScalar :: "vec \<Rightarrow> jsnum \<Rightarrow> vec" where
  "multiplyScalar (Vector3 a b c) s = Vector3 (js_mul a s) (js_mul b s) (js_mul c s)"

definition divideScalar :: "vec \<Rightarrow> jsnum \<Rightarrow> vec" where
  "divideScalar v s = multiplyScalar v (js_div (Fin 1) s)"

text \<open>\<open>normalize\<close> divides by \<open>this.length() || 1\<close>: a zero vector stays as it is.\<close>

definition normalize :: "vec \<Rightarrow> vec" where
  "normalize v = divideScalar v (if truthy (vlength v) then vlength v else Fin 1)"

definition makeRotationAxis :: "vec \<Rightarrow> jsnum \<Rightarrow> matrix4" where
  "makeRotationAxis axis angle =
     (let c = Math_cos angle;
          s = Math_sin angle;
          t = js_sub (Fin 1) c;
          x = vx axis; y = vy axis; z = vz axis;
          tx = js_mul t x; ty = js_mul t y
      in Matrix4
           (js_add (js_mul tx x) c) (js_sub (js_mul tx y) (js_mul s z))
              (js_add (js_mul tx z) (js_mul s y)) (Fin 0)
           (js_add (js_mul tx y) (js_mul s z)) (js_add (js_mul ty y) c)
              (js_sub (js_mul ty z) (js_mul s x)) (Fin 0)
           (js_sub (js_mul tx z) (js_mul s y)) (js_add (js_mul ty z) (js_mul s x))
              (js_add (js_mul (js_mul t z) z) c) (Fin 0)
           (Fin 0) (Fin 0) (Fin 0) (Fin 1))"

definition applyMatrix4 :: "vec \<Rightarrow> matrix4 \<Rightarrow> vec" where
  "applyMatrix4 v m =
     (let x = vx v; y = vy v; z = vz v;
          w = js_div (Fin 1)
                (js_add (js_add (js_add (js_mul (n41 m) x) (js_mul (n42 m) y))
                   (js_mul (n43 m) z)) (n44 m))
      in Vector3
           (js_mul (js_add (js_add (js_add (js_mul (n11 m) x) (js_mul (n12 m) y))
              (js_mul (n13 m) z)) (n14 m)) w)
           (js_mul (js_add (js_add (js_add (js_mul (n21 m) x) (js_mul (n22 m) y))
              (js_mul (n23 m) z)) (n24 m)) w)
           (js_mul (js_add (js_add (js_add (js_mul (n31 m) x) (js_mul (n32 m) y))
              (js_mul (n33 m) z)) (n34 m)) w))"

definition vecNaN :: "vec \<Rightarrow> bool" where
  "vecNaN p = (isNaN (vx p) \<or> isNaN (vy p) \<or> isNaN (vz p))"

definition vecFinite :: "vec \<Rightarrow> bool" where
  "vecFinite p = (isFinite (vx p) \<and> isFinite (vy p) \<and> isFinite (vz p))"

section \<open>The globe component: projection and orbital trail\<close>

record ISSPosition =
  latitude :: jsnum
  longitude :: jsnum
  altitude :: jsnum
  velocity :: jsnum

text \<open>
  The part of the component's state that \<open>updateISSPosition\<close> and \<open>updateOrbitLine\<close>
  read and write: whether the scene manager exists, the marker (by its position, when it
  exists), the trail buffer \<open>orbitPoints\<close>, and the point lists of the two line
  geometries of the orbit group (its children 0 and 1, built by \<open>createOrbitLine\<close>).
\<close>

record globe =
  sceneManager :: bool
  issMarker :: "vec option"
  orbitPoints :: "vec list"
  pastLine :: "vec list"
  futureLine :: "vec list"

definition MAX_TRAIL_LENGTH :: nat where
  "MAX_TRAIL_LENGTH = 100"

definition FUTURE_POINTS :: nat where
  "FUTURE_POINTS = 200"

definition createOrbitLine :: "globe \<Rightarrow> globe" where
  "createOrbitLine s =
     s\<lparr>pastLine := [Vector3 (Fin 0) (Fin 0) (Fin 0)],
       futureLine := [Vector3 (Fin 0) (Fin 0) (Fin 0)]\<rparr>"

text \<open>One pass of the body of the loop over \<open>i\<close> in \<open>updateOrbitLine\<close>.\<close>

definition futurePoint :: "vec \<Rightarrow> vec \<Rightarrow> jsnum \<Rightarrow> nat \<Rightarrow> vec" where
  "futurePoint lastPoint orbitalPlaneNormal radius i =
     (let angle = js_div (js_mul (js_div (Fin (real i)) (Fin (real FUTURE_POINTS)))
                    (Fin Math_PI)) (Fin 2);
          rotationMatrix = makeRotationAxis orbitalPlaneNormal angle;
          futurePoint = applyMatrix4 lastPoint rotationMatrix
      in multiplyScalar (normalize futurePoint) radius)"

function futureLoop :: "vec \<Rightarrow> vec \<Rightarrow> jsnum \<Rightarrow> nat \<Rightarrow> vec list \<Rightarrow> vec list" where
  "futureLoop lastPoint orbitalPlaneNormal radius i futurePoints =
     (if i \<le> FUTURE_POINTS
      then futureLoop lastPoint orbitalPlaneNormal radius (i + 1)
             (futurePoints @ [futurePoint lastPoint orbitalPlaneNormal radius i])
      else futurePoints)"
  by pat_completeness auto
termination
  by (relation "measure (\<lambda>(l, n, r, i, acc). Suc FUTURE_POINTS - i)") auto

declare futureLoop.simps [simp del]

definition futurePoints :: "vec list \<Rightarrow> vec list" where
  "futurePoints validPoints =
     (if 2 \<le> length validPoints
      then let lastPoint = validPoints ! (length validPoints - 1);
               secondLastPoint = validPoints ! (length validPoints - 2);
               velocity = subVectors lastPoint secondLastPoint;
               orbitalPlaneNormal = normalize (crossVectors lastPoint velocity);
               radius = vlength lastPoint
           in futureLoop lastPoint orbitalPlaneNormal radius 1 []
      else [])"

text \<open>
  \<open>updateOrbitLine\<close>. The point is cloned and pushed, so the buffer holds its value; the
  store-level model further down keeps the objects apart. The orbit group is the one
  \<open>createOrbitLine\<close> builds, so both of its lines and their geometries exist and the two
  geometry updates at the end always run.
\<close>

definition updateOrbitLine :: "globe \<Rightarrow> vec \<Rightarrow> globe" where
  "updateOrbitLine s position =
     (if isNaN (vx position) \<or> isNaN (vy position) \<or> isNaN (vz position) then s
      else
        let pushed = orbitPoints s @ [position];
            points = (if length pushed > MAX_TRAIL_LENGTH then tl pushed else pushed);
            validPoints = filter (\<lambda>p. \<not> isNaN (vx p) \<and> \<not> isNaN (vy p) \<and> \<not> isNaN (vz p)) points
        in if length validPoints = 0 then s\<lparr>orbitPoints := points\<rparr>
           else s\<lparr>orbitPoints := points,
                  pastLine := validPoints,
                  futureLine := futurePoints validPoints\<rparr>)"

text \<open>
  The projection inside \<open>updateISSPosition\<close>: the value of its local \<open>newPosition\<close>.
\<close>

definition newPosition :: "'a ISSPosition_scheme \<Rightarrow> vec" where
  "newPosition position =
     (let phi = js_mul (js_sub (Fin 90) (latitude position)) (js_div (Fin Math_PI) (Fin 180));
          theta = js_mul (js_add (longitude position) (Fin 180)) (js_div (Fin Math_PI) (Fin 180));
          radius = Fin (26 / 5)
      in Vector3
           (js_mul (js_mul (js_neg radius) (Math_sin phi)) (Math_cos theta))
           (js_mul radius (Math_cos phi))
           (js_mul (js_mul radius (Math_sin phi)) (Math_sin theta)))"

text \<open>
  \<open>updateISSPosition\<close>. The calls that turn the marker (\<open>lookAt\<close>, \<open>rotateOnAxis\<close>,
  \<open>rotation.y\<close>) change its orientation only, which is not part of the state here.
\<close>

definition updateISSPosition :: "globe \<Rightarrow> 'a ISSPosition_scheme \<Rightarrow> globe" where
  "updateISSPosition s position =
     (if \<not> sceneManager s \<or> issMarker s = None then s
      else
        let p = newPosition position
        in if isNaN (vx p) \<or> isNaN (vy p) \<or> isNaN (vz p) then s
           else updateOrbitLine (s\<lparr>issMarker := Some p\<rparr>) p)"

section \<open>The ISS service\<close>

text \<open>
  \<open>parseFloat\<close> on a string, after ECMAScript: leading white space is skipped, the longest
  prefix that is a decimal literal (an optional sign, then \<open>Infinity\<close> or digits with an
  optional fraction and exponent) gives the value, and NaN is returned when no prefix is
  one. Strings are ASCII here, so the white space is tab, line feed, vertical tab, form
  feed, carriage return and space.
\<close>

definition isWhiteSpace :: "char \<Rightarrow> bool" where
  "isWhiteSpace c = (c \<in> set [CHR 0x09, CHR 0x0A, CHR 0x0B, CHR 0x0C, CHR 0x0D, CHR '' ''])"

definition isDigit :: "char \<Rightarrow> bool" where
  "isDigit c = (c \<in> set ''0123456789'')"

definition digitValue :: "char \<Rightarrow> nat" where
  "digitValue c = of_char c - 48"

definition digitsValue :: "string \<Rightarrow> nat" where
  "digitsValue ds = foldl (\<lambda>n c. 10 * n + digitValue c) 0 ds"

text \<open>The value of an exponent part at the head of the string, 0 when there is none.\<close>

definition exponentPart :: "string \<Rightarrow> int" where
  "exponentPart s =
     (case s of
        [] \<Rightarrow> 0
      | c # t \<Rightarrow>
          if c = CHR ''e'' \<or> c = CHR ''E'' then
            (case t of
               [] \<Rightarrow> 0
             | d # u \<Rightarrow>
                 if d = CHR ''+'' then int (digitsValue (takeWhile isDigit u))
                 else if d = CHR ''-'' then - int (digitsValue (takeWhile isDigit u))
                 else int (digitsValue (takeWhile isDigit t)))
          else 0)"

definition scale10 :: "real \<Rightarrow> int \<Rightarrow> real" where
  "scale10 m e = (if 0 \<le> e then m * 10 ^ nat e else m / 10 ^ nat (- e))"

definition strUnsignedDecimalLiteral :: "string \<Rightarrow> jsnum option" where
  "strUnsignedDecimalLiteral s =
     (if take 8 s = ''Infinity'' then Some PInf
      else
        let ip = takeWhile isDigit s; r1 = dropWhile isDigit s
        in if ip \<noteq> [] then
             (case r1 of
                [] \<Rightarrow> Some (Fin (real (digitsValue ip)))
              | c # t \<Rightarrow>
                  if c = CHR ''.'' then
                    let fp = takeWhile isDigit t; r2 = dropWhile isDigit t
                    in Some (Fin (scale10
                         (real (digitsValue ip) + real (digitsValue fp) / 10 ^ length fp)
                         (exponentPart r2)))
                  else Some (Fin (scale10 (real (digitsValue ip)) (exponentPart r1))))
           else
             (case s of
                [] \<Rightarrow> None
              | c # t \<Rightarrow>
                  if c = CHR ''.'' \<and> takeWhile isDigit t \<noteq> [] then
                    Some (Fin (scale10
                      (real (digitsValue (takeWhile isDigit t)) / 10 ^ length (takeWhile isDigit t))
                      (exponentPart (dropWhile isDigit t))))
                  else None))"

definition parseFloat :: "string \<Rightarrow> jsnum" where
  "parseFloat inputString =
     (let trimmed = dropWhile isWhiteSpace inputString
      in case trimmed of
           [] \<Rightarrow> NaN
         | c # u \<Rightarrow>
             if c = CHR ''+'' then
               (case strUnsignedDecimalLiteral u of None \<Rightarrow> NaN | Some v \<Rightarrow> v)
             else if c = CHR ''-'' then
               (case strUnsignedDecimalLiteral u of None \<Rightarrow> NaN | Some v \<Rightarrow> js_neg v)
             else
               (case strUnsignedDecimalLiteral trimmed of None \<Rightarrow> NaN | Some v \<Rightarrow> v))"

text \<open>The decimal digits of a number, as a template literal prints an integer.\<close>

function show_nat :: "nat \<Rightarrow> string" where
  "show_nat n =
     (if n < 10 then [''0123456789'' ! n]
      else show_nat (n div 10) @ [''0123456789'' ! (n mod 10)])"
  by pat_completeness auto
termination
  by (relation "measure id") auto

declare show_nat.simps [simp del]

text \<open>A JavaScript \<open>Error\<close> object, by its name and message.\<close>

datatype js_error = Error (error_name: string) (error_message: string)

text \<open>
  The payload, as the interface \<open>ISSAPIResponse\<close> declares it; \<open>iss_position\<close> is \<open>None\<close>
  when the field is missing from the parsed JSON.
\<close>

record ISSAPIResponse =
  iss_position :: "(string \<times> string) option"
  message :: string
  timestamp :: jsnum

text \<open>
  What the two awaits of \<open>getPosition\<close> settle to: \<open>fetch\<close> rejects, or resolves with a
  response whose \<open>json()\<close> rejects or resolves with the payload.
\<close>

record response =
  ok :: bool
  status :: nat
  json :: "js_error + ISSAPIResponse"

datatype fetch_outcome = Rejected js_error | Resolved response

text \<open>The \<open>try\<close> block of \<open>getPosition\<close>; \<open>Inl\<close> is the value thrown.\<close>

definition getPosition_try :: "fetch_outcome \<Rightarrow> js_error + ISSPosition" where
  "getPosition_try outcome =
     (case outcome of
        Rejected e \<Rightarrow> Inl e
      | Resolved r \<Rightarrow>
          if \<not> ok r then Inl (Error ''Error'' (''HTTP error! status: '' @ show_nat (status r)))
          else
            (case json r of
               Inl e \<Rightarrow> Inl e
             | Inr data \<Rightarrow>
                 (case iss_position data of
                    None \<Rightarrow> Inl (Error ''Error'' ''Invalid response format from ISS API'')
                  | Some (lat, lon) \<Rightarrow>
                      Inr \<lparr>latitude = parseFloat lat,
                           longitude = parseFloat lon,
                           altitude = Fin 408,
                           velocity = Fin (766 / 100)\<rparr>)))"

text \<open>
  \<open>getPosition\<close> with its \<open>catch\<close> block. Everything the \<open>try\<close> block throws is an
  \<open>Error\<close> object, so the last \<open>throw\<close> of the source is not reached.
\<close>

definition getPosition :: "fetch_outcome \<Rightarrow> js_error + ISSPosition" where
  "getPosition outcome =
     (case getPosition_try outcome of
        Inr position \<Rightarrow> Inr position
      | Inl error \<Rightarrow>
          if error_name error = ''AbortError'' then Inl (Error ''Error'' ''Request was cancelled'')
          else Inl (Error ''Error'' (''Failed to fetch ISS position: '' @ error_message error)))"

text \<open>
  The tracking loop of \<open>startTracking\<close> as a machine driven by what the loop waits for: the
  request in flight settles, the timer of the pause fires, or the caller invokes the
  returned handle. The log records what the loop does to the outside: a request issued,
  a call of \<open>onUpdate\<close>, a call of \<open>onError\<close>. \<open>signalAborted\<close> is the state of the abort
  signal given to the request in flight; a request whose signal was aborted settles as a
  rejection with an \<open>AbortError\<close>.
\<close>

datatype event = Request | OnUpdate ISSPosition | OnError js_error

datatype phase = AwaitFetch | AwaitTimer | Stopped

datatype input = Settle fetch_outcome | Timer | Cancel

text \<open>
  A string that cannot be the start of a number: after the leading white space it does not
  begin with a sign, a digit, a point or the \<open>I\<close> of \<open>Infinity\<close>.
\<close>

definition nonNumeric :: "string \<Rightarrow> bool" where
  "nonNumeric s =
     (case dropWhile isWhiteSpace s of
        [] \<Rightarrow> True
      | c # u \<Rightarrow> c \<notin> set ''+-.0123456789I'')"

record tracker =
  isTracking :: bool
  controller :: bool
  signalAborted :: bool
  phase :: phase
  log :: "event list"

text \<open>The start of \<open>getPosition\<close>: a new controller, and the request goes out.\<close>

definition issueRequest :: "tracker \<Rightarrow> tracker" where
  "issueRequest t =
     t\<lparr>controller := True, signalAborted := False, phase := AwaitFetch, log := log t @ [Request]\<rparr>"

text \<open>\<open>startTracking\<close> runs \<open>track()\<close> up to its first await and returns the handle.\<close>

definition startTracking :: tracker where
  "startTracking = issueRequest
     \<lparr>isTracking = True, controller = False, signalAborted = False, phase = AwaitTimer, log = []\<rparr>"

definition step :: "tracker \<Rightarrow> input \<Rightarrow> tracker" where
  "step t i =
     (case i of
        Settle outcome \<Rightarrow>
          if phase t = AwaitFetch then
            (case getPosition (if signalAborted t
                               then Rejected (Error ''AbortError'' ''The operation was aborted.'')
                               else outcome) of
               Inr position \<Rightarrow> t\<lparr>phase := AwaitTimer, log := log t @ [OnUpdate position]\<rparr>
             | Inl error \<Rightarrow> t\<lparr>phase := AwaitTimer, log := log t @ [OnError error]\<rparr>)
          else t
      | Timer \<Rightarrow>
          if phase t = AwaitTimer then
            (if isTracking t then issueRequest t else t\<lparr>phase := Stopped\<rparr>)
          else t
      | Cancel \<Rightarrow>
          t\<lparr>isTracking := False,
            signalAborted := (signalAborted t \<or> controller t),
            controller := False\<rparr>)"

definition run :: "tracker \<Rightarrow> input list \<Rightarrow> tracker" where
  "run t inputs = foldl step t inputs"

definition cancelled :: event where
  "cancelled = OnError (Error ''Error'' ''Request was cancelled'')"

section \<open>The trail buffer as objects in a store\<close>

text \<open>
  \<open>updateOrbitLine\<close> receives a reference to a \<open>Vector3\<close> object that its caller may go on
  using. Here the objects live in a store, \<open>orbitPoints\<close> is a list of references, and
  \<open>position.clone()\<close> allocates a new object with the same coordinates. The caller can
  name only the objects it made itself (\<open>callerRefs\<close>): the buffer is a variable of the
  component's closure and no function hands its elements out.
\<close>

type_synonym ref = nat

record store =
  objects :: "ref \<rightharpoonup> vec"
  fresh :: ref

definition allocate :: "store \<Rightarrow> vec \<Rightarrow> ref \<times> store" where
  "allocate h v = (fresh h, h\<lparr>objects := (objects h)(fresh h \<mapsto> v), fresh := Suc (fresh h)\<rparr>)"

definition assign :: "store \<Rightarrow> ref \<Rightarrow> vec \<Rightarrow> store" where
  "assign h r v = h\<lparr>objects := (objects h)(r \<mapsto> v)\<rparr>"

record component =
  heap :: store
  orbitRefs :: "ref list"
  callerRefs :: "ref list"

text \<open>
  The buffer update of \<open>updateOrbitLine\<close> (the guard, the clone, the push and the shift)
  on references. A reference to no object cannot be passed, so that case changes nothing.
\<close>

definition updateOrbitLine_refs :: "component \<Rightarrow> ref \<Rightarrow> component" where
  "updateOrbitLine_refs w position =
     (case objects (heap w) position of
        None \<Rightarrow> w
      | Some v \<Rightarrow>
          if isNaN (vx v) \<or> isNaN (vy v) \<or> isNaN (vz v) then w
          else
            let (newPoint, h) = allocate (heap w) v;
                pushed = orbitRefs w @ [newPoint]
            in w\<lparr>heap := h,
                 orbitRefs := (if length pushed > MAX_TRAIL_LENGTH then tl pushed else pushed)\<rparr>)"

text \<open>
  What the caller can do: make a new vector, overwrite the coordinates of one of its
  vectors, or pass one of them to \<open>updateOrbitLine\<close>.
\<close>

datatype action = New vec | Mutate ref vec | Update ref

definition act :: "component \<Rightarrow> action \<Rightarrow> component" where
  "act w a =
     (case a of
        New v \<Rightarrow>
          let (r, h) = allocate (heap w) v in w\<lparr>heap := h, callerRefs := callerRefs w @ [r]\<rparr>
      | Mutate r v \<Rightarrow>
          if r \<in> set (callerRefs w) then w\<lparr>heap := assign (heap w) r v\<rparr> else w
      | Update r \<Rightarrow>
          if r \<in> set (callerRefs w) then updateOrbitLine_refs w r else w)"

definition emptyComponent :: component where
  "emptyComponent = \<lparr>heap = \<lparr>objects = Map.empty, fresh = 0\<rparr>, orbitRefs = [], callerRefs = []\<rparr>"

text \<open>The coordinates of the buffered points, oldest first.\<close>

definition bufferValues :: "component \<Rightarrow> vec option list" where
  "bufferValues w = map (objects (heap w)) (orbitRefs w)"

section \<open>Auxiliary notions for the proofs\<close>

text \<open>While a request is in flight, its controller is held or its signal is aborted.\<close>

definition inFlight :: "tracker \<Rightarrow> bool" where
  "inFlight t = (phase t \<noteq> AwaitFetch \<or> controller t \<or> signalAborted t)"

text \<open>
  What holds from the cancellation on, relative to the log \<open>L\<close> at the cancellation and
  to whether a request was in flight then (\<open>f\<close>).
\<close>

definition afterCancel :: "event list \<Rightarrow> bool \<Rightarrow> tracker \<Rightarrow> bool" where
  "afterCancel L f t =
     (\<not> isTracking t \<and>
      (if phase t = AwaitFetch then signalAborted t \<and> f \<and> log t = L
       else log t = L \<or> (f \<and> log t = L @ [cancelled])))"

text \<open>Every reference in use is below \<open>fresh\<close>, and the buffer shares none with the caller.\<close>

definition separated :: "component \<Rightarrow> bool" where
  "separated w =
     (list_all (\<lambda>r. r < fresh (heap w)) (orbitRefs w) \<and>
      list_all (\<lambda>r. r < fresh (heap w) \<and> r \<notin> set (orbitRefs w)) (callerRefs w))"

text \<open>
  Enclosing the sine of a fraction \<open>a / 2^48\<close>: the terms \<open>x^(2k+1) / (2k+1)!\<close> of its
  series are bounded below and above by integers over \<open>2^80\<close>, computed with integer
  division, and summed with alternating signs.
\<close>

definition sin_term :: "real \<Rightarrow> nat \<Rightarrow> real" where
  "sin_term x k = x ^ (2 * k + 1) / fact (2 * k + 1)"

fun sin_lo :: "int \<Rightarrow> nat \<Rightarrow> int" where
  "sin_lo a 0 = a * 2 ^ 32"
| "sin_lo a (Suc k) = (sin_lo a k * (a * a)) div (2 ^ 96 * int ((2 * k + 2) * (2 * k + 3)))"

fun sin_hi :: "int \<Rightarrow> nat \<Rightarrow> int" where
  "sin_hi a 0 = a * 2 ^ 32"
| "sin_hi a (Suc k) = (sin_hi a k * (a * a)) div (2 ^ 96 * int ((2 * k + 2) * (2 * k + 3))) + 1"

fun alt_lo :: "int \<Rightarrow> nat \<Rightarrow> int" where
  "alt_lo a 0 = 0"
| "alt_lo a (Suc n) = alt_lo a n + (if even n then sin_lo a n else - sin_hi a n)"

fun alt_hi :: "int \<Rightarrow> nat \<Rightarrow> int" where
  "alt_hi a 0 = 0"
| "alt_hi a (Suc n) = alt_hi a n + (if even n then sin_hi a n else - sin_lo a n)"

text \<open>Two numbers, or two vectors coordinate by coordinate, within \<open>e\<close> of each other.\<close>

fun near :: "real \<Rightarrow> jsnum \<Rightarrow> jsnum \<Rightarrow> bool" where
  "near e (Fin a) (Fin b) = (\<bar>a - b\<bar> \<le> e)"
| "near e _ _ = False"

definition vecNear :: "real \<Rightarrow> vec \<Rightarrow> vec \<Rightarrow> bool" where
  "vecNear e p q = (near e (vx p) (vx q) \<and> near e (vy p) (vy q) \<and> near e (vz p) (vz q))"

text \<open>The divisor of \<open>normalize\<close> and the Euclidean length, on reals.\<close>

definition orOne :: "real \<Rightarrow> real" where
  "orOne l = (if l \<noteq> 0 then l else 1)"

definition norm3 :: "real \<Rightarrow> real \<Rightarrow> real \<Rightarrow> real" where
  "norm3 a b c = sqrt (a * a + b * b + c * c)"

text \<open>The last \<open>n\<close> elements of a list, oldest first.\<close>

definition lastn :: "nat \<Rightarrow> 'a list \<Rightarrow> 'a list" where
  "lastn n xs = drop (length xs - n) xs"

text \<open>A state of the component with the marker and the orbit group in place.\<close>

definition readyGlobe :: globe where
  "readyGlobe = createOrbitLine
     \<lparr>sceneManager = True, issMarker = Some (Vector3 (Fin 0) (Fin 0) (Fin 0)),
      orbitPoints = [], pastLine = [], futureLine = []\<rparr>"

section \<open>Properties of the trail buffer\<close>

lemma updateOrbitLine_rejects: "vecNaN p \<Longrightarrow> updateOrbitLine s p = s"
  by (simp add: updateOrbitLine_def vecNaN_def)

lemma updateOrbitLine_points:
  "\<not> vecNaN p \<Longrightarrow> orbitPoints (updateOrbitLine s p) =
     (if length (orbitPoints s @ [p]) > MAX_TRAIL_LENGTH then tl (orbitPoints s @ [p])
      else orbitPoints s @ [p])"
  by (simp add: updateOrbitLine_def vecNaN_def Let_def)

lemma lastn_step:
  "length xs \<le> n \<Longrightarrow>
   lastn n ((if length (xs @ [p]) > n then tl (xs @ [p]) else xs @ [p]) @ ys) = lastn n (xs @ [p] @ ys)"
  by (cases xs) (auto simp: lastn_def drop_Cons' Suc_diff_le)

text \<open>
  From a buffer within the bound, any run of updates leaves the last
  \<open>MAX_TRAIL_LENGTH\<close> of the old points followed by the accepted new ones.
\<close>

lemma run_points:
  "length (orbitPoints s) \<le> MAX_TRAIL_LENGTH \<Longrightarrow>
   orbitPoints (foldl updateOrbitLine s ps) =
     lastn MAX_TRAIL_LENGTH (orbitPoints s @ filter (\<lambda>p. \<not> vecNaN p) ps)"
proof (induction ps arbitrary: s)
  case Nil
  then show ?case by (simp add: lastn_def)
next
  case (Cons p ps)
  show ?case
  proof (cases "vecNaN p")
    case True
    with Cons show ?thesis by (simp add: updateOrbitLine_rejects)
  next
    case False
    let ?s' = "updateOrbitLine s p"
    have pts: "orbitPoints ?s' =
       (if length (orbitPoints s @ [p]) > MAX_TRAIL_LENGTH then tl (orbitPoints s @ [p])
        else orbitPoints s @ [p])"
      using False by (rule updateOrbitLine_points)
    have len: "length (orbitPoints ?s') \<le> MAX_TRAIL_LENGTH"
      using Cons.prems by (simp add: pts)
    have "orbitPoints (foldl updateOrbitLine ?s' ps) =
        lastn MAX_TRAIL_LENGTH (orbitPoints ?s' @ filter (\<lambda>p. \<not> vecNaN p) ps)"
      using len by (rule Cons.IH)
    also have "\<dots> = lastn MAX_TRAIL_LENGTH (orbitPoints s @ [p] @ filter (\<lambda>p. \<not> vecNaN p) ps)"
      unfolding pts using Cons.prems by (rule lastn_step)
    finally show ?thesis using False by simp
  qed
qed

text \<open>
  C3. Starting from the empty buffer, after any sequence of calls of \<open>updateOrbitLine\<close>
  the buffer holds the accepted points (those with no NaN coordinate) in the order they
  came, cut to the last 100: it never holds more than 100 points, and what is dropped
  is dropped from position 0, oldest first.
\<close>

theorem trail_bounded_fifo:
  "orbitPoints (foldl updateOrbitLine (s\<lparr>orbitPoints := []\<rparr>) ps) =
     drop (length (filter (\<lambda>p. \<not> vecNaN p) ps) - 100) (filter (\<lambda>p. \<not> vecNaN p) ps)
   \<and> length (orbitPoints (foldl updateOrbitLine (s\<lparr>orbitPoints := []\<rparr>) ps)) \<le> 100"
proof -
  have "orbitPoints (foldl updateOrbitLine (s\<lparr>orbitPoints := []\<rparr>) ps) =
     lastn MAX_TRAIL_LENGTH (filter (\<lambda>p. \<not> vecNaN p) ps)"
    using run_points [of "s\<lparr>orbitPoints := []\<rparr>" ps] by simp
  then show ?thesis by (simp add: lastn_def MAX_TRAIL_LENGTH_def)
qed

theorem trail_bounded_fifo_witness:
  "orbitPoints (foldl updateOrbitLine (readyGlobe\<lparr>orbitPoints := []\<rparr>)
      [Vector3 (Fin 1) (Fin 2) (Fin 3), Vector3 (Fin 1) NaN (Fin 3), Vector3 (Fin 4) (Fin 5) (Fin 6)])
     = [Vector3 (Fin 1) (Fin 2) (Fin 3), Vector3 (Fin 4) (Fin 5) (Fin 6)]"
  using trail_bounded_fifo [of readyGlobe
      "[Vector3 (Fin 1) (Fin 2) (Fin 3), Vector3 (Fin 1) NaN (Fin 3), Vector3 (Fin 4) (Fin 5) (Fin 6)]"]
  by (simp add: vecNaN_def)

section \<open>Properties of the projection\<close>

lemma newPosition_nonfinite:
  "\<not> isFinite (latitude position) \<or> \<not> isFinite (longitude position) \<Longrightarrow>
   vx (newPosition position) = NaN"
  by (cases "latitude position"; cases "longitude position")
     (auto simp: newPosition_def Let_def js_sub_def inf_times_def)

lemma newPosition_finite:
  "isFinite (latitude position) \<Longrightarrow> isFinite (longitude position) \<Longrightarrow>
   vecFinite (newPosition position)"
  by (cases "latitude position"; cases "longitude position")
     (auto simp: newPosition_def Let_def js_sub_def vecFinite_def)

text \<open>
  C1. For every finite latitude and longitude the projected point is exactly
  \<open>(-radius * sin phi * cos theta, radius * cos phi, radius * sin phi * sin theta)\<close> with
  \<open>phi = (90 - latitude) * (PI / 180)\<close>, \<open>theta = (longitude + 180) * (PI / 180)\<close> and
  \<open>radius = 5.2\<close>; this point is what \<open>updateISSPosition\<close> gives the marker and appends
  to the trail.
\<close>

theorem projection_formula:
  fixes lat lon :: real and a v :: jsnum and m :: vec
  defines "phi \<equiv> (90 - lat) * (Math_PI / 180)"
      and "theta \<equiv> (lon + 180) * (Math_PI / 180)"
      and "radius \<equiv> 26 / 5"
  defines "position \<equiv> \<lparr>latitude = Fin lat, longitude = Fin lon, altitude = a, velocity = v\<rparr>"
  defines "point \<equiv> Vector3 (Fin (- radius * sin phi * cos theta)) (Fin (radius * cos phi))
                      (Fin (radius * sin phi * sin theta))"
  shows "newPosition position = point
       \<and> issMarker (updateISSPosition (s\<lparr>sceneManager := True, issMarker := Some m\<rparr>) position) = Some point
       \<and> last (orbitPoints (updateISSPosition (s\<lparr>sceneManager := True, issMarker := Some m\<rparr>) position)) = point"
proof -
  have np: "newPosition position = point"
    unfolding position_def point_def phi_def theta_def radius_def
    by (simp add: newPosition_def Let_def js_sub_def)
  have nn: "\<not> vecNaN point" by (simp add: vecNaN_def point_def)
  show ?thesis
    using nn
    by (cases "orbitPoints s")
       (simp_all add: np updateISSPosition_def updateOrbitLine_def Let_def vecNaN_def
          MAX_TRAIL_LENGTH_def)
qed

theorem projection_formula_witness:
  "newPosition \<lparr>latitude = Fin 90, longitude = Fin (- 180), altitude = Fin 408, velocity = Fin (766 / 100)\<rparr>
     = Vector3 (Fin 0) (Fin (26 / 5)) (Fin 0)
   \<and> issMarker (updateISSPosition readyGlobe
        \<lparr>latitude = Fin 90, longitude = Fin (- 180), altitude = Fin 408, velocity = Fin (766 / 100)\<rparr>)
     = Some (Vector3 (Fin 0) (Fin (26 / 5)) (Fin 0))"
  using projection_formula [where lat = 90 and lon = "- 180" and a = "Fin 408"
      and v = "Fin (766 / 100)" and s = readyGlobe and m = "Vector3 (Fin 0) (Fin 0) (Fin 0)"]
  by (simp add: readyGlobe_def createOrbitLine_def)

text \<open>
  C5. When the latitude or the longitude is not finite, or a coordinate of the projected
  point is not finite, \<open>updateISSPosition\<close> returns with the whole state as it was: no
  point is appended and the trail buffer is unchanged. The guard of \<open>updateOrbitLine\<close>
  rejects the same point. Neither function has a path that throws.
\<close>

theorem nonfinite_rejected:
  assumes "\<not> isFinite (latitude position) \<or> \<not> isFinite (longitude position)
           \<or> \<not> vecFinite (newPosition position)"
  shows "updateISSPosition s position = s \<and> updateOrbitLine s (newPosition position) = s"
proof -
  have "\<not> isFinite (latitude position) \<or> \<not> isFinite (longitude position)"
    using assms newPosition_finite by blast
  then have "vx (newPosition position) = NaN" by (rule newPosition_nonfinite)
  then show ?thesis by (simp add: updateISSPosition_def updateOrbitLine_def Let_def)
qed

theorem nonfinite_rejected_witness:
  "\<not> isFinite (latitude \<lparr>latitude = PInf, longitude = Fin 20, altitude = Fin 408, velocity = Fin (766 / 100)\<rparr>)
   \<and> updateISSPosition readyGlobe
        \<lparr>latitude = PInf, longitude = Fin 20, altitude = Fin 408, velocity = Fin (766 / 100)\<rparr> = readyGlobe
   \<and> orbitPoints (updateISSPosition readyGlobe
        \<lparr>latitude = PInf, longitude = Fin 20, altitude = Fin 408, velocity = Fin (766 / 100)\<rparr>) = []"
proof -
  have h: "\<not> isFinite (latitude \<lparr>latitude = PInf, longitude = Fin 20, altitude = Fin 408, velocity = Fin (766 / 100)\<rparr>)"
    by simp
  from nonfinite_rejected [of "\<lparr>latitude = PInf, longitude = Fin 20, altitude = Fin 408, velocity = Fin (766 / 100)\<rparr>" readyGlobe] h
  show ?thesis by (simp add: readyGlobe_def createOrbitLine_def)
qed

section \<open>Properties of the service\<close>

text \<open>
  C8. Whatever the request settles to, a position that \<open>getPosition\<close> returns has altitude
  408 and velocity 7.66.
\<close>

theorem position_constants:
  "getPosition outcome = Inr position \<Longrightarrow>
   altitude position = Fin 408 \<and> velocity position = Fin (766 / 100)"
  by (auto simp: getPosition_def getPosition_try_def
      split: fetch_outcome.splits sum.splits option.splits if_splits prod.splits)

theorem position_constants_witness:
  "getPosition (Resolved \<lparr>ok = True, status = 200,
      json = Inr \<lparr>iss_position = Some (''51.5074'', ''-0.1278''), message = ''success'',
                  timestamp = Fin 1700000000\<rparr>\<rparr>)
     = Inr \<lparr>latitude = Fin (515074 / 10000), longitude = Fin (- (1278 / 10000)),
            altitude = Fin 408, velocity = Fin (766 / 100)\<rparr>
   \<and> altitude \<lparr>latitude = Fin (515074 / 10000), longitude = Fin (- (1278 / 10000)),
            altitude = Fin 408, velocity = Fin (766 / 100)\<rparr> = Fin 408"
proof -
  have h: "getPosition (Resolved \<lparr>ok = True, status = 200,
      json = Inr \<lparr>iss_position = Some (''51.5074'', ''-0.1278''), message = ''success'',
                  timestamp = Fin 1700000000\<rparr>\<rparr>)
     = Inr \<lparr>latitude = Fin (515074 / 10000), longitude = Fin (- (1278 / 10000)),
            altitude = Fin 408, velocity = Fin (766 / 100)\<rparr>"
    by (simp add: getPosition_def getPosition_try_def parseFloat_def
        strUnsignedDecimalLiteral_def isWhiteSpace_def isDigit_def digitsValue_def
        digitValue_def exponentPart_def scale10_def Let_def)
  from position_constants [OF h] h show ?thesis by simp
qed

lemma no_literal_prefix:
  assumes "c \<notin> set ''+-.0123456789I''"
  shows "strUnsignedDecimalLiteral (c # u) = None"
proof -
  have 1: "c \<noteq> CHR ''I''" and 2: "\<not> isDigit c" and 3: "c \<noteq> CHR ''.''"
    using assms by (simp_all add: isDigit_def)
  have "take 8 (c # u) \<noteq> ''Infinity''"
    using 1 by (simp add: take_Cons')
  then show ?thesis
    using 2 3 by (simp add: strUnsignedDecimalLiteral_def)
qed

lemma nonNumeric_NaN:
  assumes "nonNumeric s"
  shows "parseFloat s = NaN"
proof (cases "dropWhile isWhiteSpace s")
  case Nil
  show ?thesis unfolding parseFloat_def Let_def Nil by simp
next
  case (Cons c u)
  with assms have c: "c \<notin> set ''+-.0123456789I''"
    by (simp add: nonNumeric_def)
  then have "c \<noteq> CHR ''+''" and "c \<noteq> CHR ''-''" by simp_all
  then show ?thesis
    unfolding parseFloat_def Let_def Cons using no_literal_prefix [OF c, of u] by simp
qed

text \<open>
  C9. When the payload has an \<open>iss_position\<close>, the position returned has as latitude and
  longitude the \<open>parseFloat\<close> of the two strings, whatever they are, and the loop passes it
  to \<open>onUpdate\<close>; a string that is not the start of a number becomes NaN and is passed
  on just the same, with no call of \<open>onError\<close>.
\<close>

theorem unvalidated_coordinates:
  assumes "iss_position data = Some (lat, lon)"
      and "phase t = AwaitFetch" and "\<not> signalAborted t"
  shows "getPosition (Resolved \<lparr>ok = True, status = st, json = Inr data\<rparr>) =
           Inr \<lparr>latitude = parseFloat lat, longitude = parseFloat lon,
                altitude = Fin 408, velocity = Fin (766 / 100)\<rparr>
       \<and> log (step t (Settle (Resolved \<lparr>ok = True, status = st, json = Inr data\<rparr>))) =
           log t @ [OnUpdate \<lparr>latitude = parseFloat lat, longitude = parseFloat lon,
                altitude = Fin 408, velocity = Fin (766 / 100)\<rparr>]
       \<and> (nonNumeric lat \<longrightarrow> parseFloat lat = NaN)
       \<and> (nonNumeric lon \<longrightarrow> parseFloat lon = NaN)"
  using assms by (simp add: getPosition_def getPosition_try_def step_def nonNumeric_NaN)

theorem unvalidated_coordinates_witness:
  "log (step startTracking (Settle (Resolved \<lparr>ok = True, status = 200,
      json = Inr \<lparr>iss_position = Some (''north'', ''12.5''), message = ''success'',
                  timestamp = Fin 0\<rparr>\<rparr>)))
     = [Request, OnUpdate \<lparr>latitude = NaN, longitude = Fin (125 / 10),
                           altitude = Fin 408, velocity = Fin (766 / 100)\<rparr>]"
proof -
  have h1: "iss_position \<lparr>iss_position = Some (''north'', ''12.5''), message = ''success'',
                  timestamp = Fin 0\<rparr> = Some (''north'', ''12.5'')" by simp
  have h2: "phase startTracking = AwaitFetch" by (simp add: startTracking_def issueRequest_def)
  have h3: "\<not> signalAborted startTracking" by (simp add: startTracking_def issueRequest_def)
  have n: "nonNumeric ''north''" by (simp add: nonNumeric_def isWhiteSpace_def)
  have p: "parseFloat ''12.5'' = Fin (125 / 10)"
    by (simp add: parseFloat_def
        strUnsignedDecimalLiteral_def isWhiteSpace_def isDigit_def digitsValue_def
        digitValue_def exponentPart_def scale10_def Let_def)
  from unvalidated_coordinates [OF h1 h2 h3, of 200] n p show ?thesis
    by (simp add: startTracking_def issueRequest_def)
qed

lemma run_snoc: "run t (inputs @ [i]) = step (run t inputs) i"
  by (simp add: run_def)

lemma run_Nil: "run t [] = t"
  by (simp add: run_def)

lemma inFlight_step: "inFlight t \<Longrightarrow> inFlight (step t i)"
  by (cases i) (auto simp: inFlight_def step_def issueRequest_def split: sum.splits)

lemma inFlight_run: "inFlight (run startTracking inputs)"
proof (induction inputs rule: rev_induct)
  case Nil
  show ?case by (simp add: run_Nil inFlight_def startTracking_def issueRequest_def)
next
  case (snoc i inputs)
  then show ?case by (simp add: run_snoc inFlight_step)
qed

lemma getPosition_aborted:
  "getPosition (Rejected (Error ''AbortError'' m)) = Inl (Error ''Error'' ''Request was cancelled'')"
  by (simp add: getPosition_def getPosition_try_def)

lemma afterCancel_step: "afterCancel L f t \<Longrightarrow> afterCancel L f (step t i)"
  by (cases i)
     (auto simp: afterCancel_def step_def getPosition_aborted cancelled_def split: if_splits)

lemma afterCancel_Cancel:
  "inFlight t \<Longrightarrow> afterCancel (log t) (phase t = AwaitFetch) (step t Cancel)"
  by (auto simp: afterCancel_def step_def inFlight_def)

lemma afterCancel_run:
  "afterCancel L f t \<Longrightarrow> afterCancel L f (run t inputs)"
proof (induction inputs rule: rev_induct)
  case Nil
  then show ?case by (simp add: run_Nil)
next
  case (snoc i inputs)
  then show ?case by (simp add: run_snoc afterCancel_step)
qed

text \<open>
  C4, as amended. After the returned handle is invoked no further request is issued. The
  log grows by nothing, or, when a request was in flight at that moment, by exactly one
  call of \<open>onError\<close>, with the error \<open>Request was cancelled\<close> of the aborted request.
\<close>

theorem cancel_stops_requests:
  fixes before after :: "input list"
  defines "t1 \<equiv> run startTracking before"
  defines "t2 \<equiv> run (step t1 Cancel) after"
  shows "take (length (log t1)) (log t2) = log t1
       \<and> Request \<notin> set (drop (length (log t1)) (log t2))
       \<and> (drop (length (log t1)) (log t2) = []
          \<or> phase t1 = AwaitFetch \<and> drop (length (log t1)) (log t2) = [cancelled])"
proof -
  have "inFlight t1" unfolding t1_def by (rule inFlight_run)
  then have "afterCancel (log t1) (phase t1 = AwaitFetch) (step t1 Cancel)"
    by (rule afterCancel_Cancel)
  then have "afterCancel (log t1) (phase t1 = AwaitFetch) t2"
    unfolding t2_def by (rule afterCancel_run)
  then have "log t2 = log t1 \<or> (phase t1 = AwaitFetch \<and> log t2 = log t1 @ [cancelled])"
    by (auto simp: afterCancel_def split: if_splits)
  then show ?thesis by (auto simp: cancelled_def)
qed

theorem cancel_stops_requests_witness:
  "log (run (step (run startTracking []) Cancel)
      [Settle (Rejected (Error ''TypeError'' ''Failed to fetch'')), Timer, Timer, Settle (Rejected (Error ''TypeError'' ''Failed to fetch''))])
   = [Request, cancelled]
   \<and> phase (run startTracking []) = AwaitFetch"
  using cancel_stops_requests [of "[]"
      "[Settle (Rejected (Error ''TypeError'' ''Failed to fetch'')), Timer, Timer, Settle (Rejected (Error ''TypeError'' ''Failed to fetch''))]"]
  by (simp add: run_def step_def startTracking_def issueRequest_def getPosition_aborted cancelled_def)

text \<open>
  The claim as it was stated fails: the handle invoked while the first request is in
  flight is followed by a call of \<open>onError\<close>.
\<close>

theorem cancel_then_onError:
  "log (step startTracking Cancel) = [Request]
   \<and> log (run (step startTracking Cancel)
        [Settle (Resolved \<lparr>ok = True, status = 200,
           json = Inr \<lparr>iss_position = Some (''10'', ''20''), message = ''success'', timestamp = Fin 0\<rparr>\<rparr>)])
     = [Request, OnError (Error ''Error'' ''Request was cancelled'')]"
  by (simp add: run_def step_def startTracking_def issueRequest_def getPosition_aborted)

section \<open>Properties of the store-level buffer\<close>

lemma separated_empty: "separated emptyComponent"
  by (simp add: separated_def emptyComponent_def)

lemma separated_update: "separated w \<Longrightarrow> separated (updateOrbitLine_refs w r)"
  by (cases "orbitRefs w")
     (auto simp: separated_def updateOrbitLine_refs_def allocate_def Let_def list_all_iff
       split: option.splits dest: less_SucI)

lemma separated_act: "separated w \<Longrightarrow> separated (act w a)"
  by (cases a)
     (auto simp: act_def separated_update, auto simp: separated_def allocate_def assign_def list_all_iff)

lemma separated_run: "separated (foldl act emptyComponent acts)"
  by (induction acts rule: rev_induct) (simp_all add: separated_empty separated_act)

lemma mutate_keeps_buffer:
  "separated w \<Longrightarrow> bufferValues (act w (Mutate r v)) = bufferValues w"
  by (auto simp: act_def bufferValues_def assign_def separated_def list_all_iff)

text \<open>
  The two models of the buffer agree: on references, \<open>updateOrbitLine\<close> buffers the
  coordinates that the value-level \<open>updateOrbitLine\<close> buffers.
\<close>

lemma updateOrbitLine_refs_values:
  assumes sep: "separated w"
      and obj: "objects (heap w) r = Some v"
      and abs: "bufferValues w = map Some (orbitPoints s)"
  shows "bufferValues (updateOrbitLine_refs w r) = map Some (orbitPoints (updateOrbitLine s v))"
proof (cases "vecNaN v")
  case True
  then show ?thesis
    using obj abs by (simp add: updateOrbitLine_refs_def updateOrbitLine_rejects vecNaN_def)
next
  case False
  let ?a = "fresh (heap w)"
  let ?objs = "(objects (heap w))(?a \<mapsto> v)"
  have old: "map ?objs (orbitRefs w) = map (objects (heap w)) (orbitRefs w)"
    using sep by (auto simp: separated_def list_all_iff)
  have len: "length (orbitRefs w) = length (orbitPoints s)"
    using abs by (auto simp: bufferValues_def dest: map_eq_imp_length_eq)
  define A where "A = orbitRefs w @ [?a]"
  have old': "map ?objs (orbitRefs w) = map Some (orbitPoints s)"
    using old abs by (simp only: bufferValues_def)
  have A: "map ?objs A = map Some (orbitPoints s @ [v])"
    unfolding A_def map_append old' by simp
  have lenA: "length A = length (orbitPoints s @ [v])"
    using len by (simp add: A_def)
  have "bufferValues (updateOrbitLine_refs w r) =
      map ?objs (if length A > MAX_TRAIL_LENGTH then tl A else A)"
    using False obj unfolding A_def
    by (simp add: updateOrbitLine_refs_def vecNaN_def allocate_def bufferValues_def Let_def)
  also have "\<dots> = (if length A > MAX_TRAIL_LENGTH then tl (map ?objs A) else map ?objs A)"
    by (simp add: map_tl)
  also have "\<dots> = (if length (orbitPoints s @ [v]) > MAX_TRAIL_LENGTH
                     then tl (map Some (orbitPoints s @ [v])) else map Some (orbitPoints s @ [v]))"
    unfolding A lenA by (rule refl)
  also have "\<dots> = map Some (orbitPoints (updateOrbitLine s v))"
    using False by (simp add: updateOrbitLine_points map_tl)
  finally show ?thesis .
qed

text \<open>
  C10. After any sequence of actions of the caller, overwriting any object the caller
  holds, among them every object it has passed to \<open>updateOrbitLine\<close>, leaves the
  coordinates of all buffered points as they were: the buffer holds clones.
\<close>

theorem clone_isolates_buffer:
  "bufferValues (act (foldl act emptyComponent acts) (Mutate r v)) =
   bufferValues (foldl act emptyComponent acts)"
  using separated_run by (rule mutate_keeps_buffer)

theorem clone_isolates_buffer_witness:
  "bufferValues (foldl act emptyComponent
      [New (Vector3 (Fin 1) (Fin 2) (Fin 3)), Update 0, Mutate 0 (Vector3 (Fin 9) (Fin 9) (Fin 9))])
   = [Some (Vector3 (Fin 1) (Fin 2) (Fin 3))]
   \<and> objects (heap (foldl act emptyComponent
      [New (Vector3 (Fin 1) (Fin 2) (Fin 3)), Update 0, Mutate 0 (Vector3 (Fin 9) (Fin 9) (Fin 9))])) 0
   = Some (Vector3 (Fin 9) (Fin 9) (Fin 9))"
  using clone_isolates_buffer [of "[New (Vector3 (Fin 1) (Fin 2) (Fin 3)), Update 0]" 0
      "Vector3 (Fin 9) (Fin 9) (Fin 9)"]
  by (simp add: act_def emptyComponent_def allocate_def assign_def updateOrbitLine_refs_def
      bufferValues_def MAX_TRAIL_LENGTH_def)

section \<open>The value of \<open>Math.PI\<close>\<close>

text \<open>
  \<open>Math.PI\<close> lies strictly between 0 and \<open>\<pi>\<close>, less than \<open>2^-48\<close> below \<open>\<pi>\<close>. The sign of
  the sine decides on which side of \<open>\<pi>\<close> a number near it lies; the sine is enclosed by
  its Maclaurin polynomial and remainder, and these by integer bounds that are evaluated.
\<close>

lemma sin_term_Suc:
  "sin_term x (Suc k) = sin_term x k * (x * x) / real ((2 * k + 2) * (2 * k + 3))"
  by (simp add: sin_term_def field_simps)

lemma maclaurin_sum:
  "(\<Sum>m<2 * n. sin_coeff m * x ^ m) = (\<Sum>k<n. (- 1) ^ k * sin_term x k)"
proof (induction n)
  case 0
  show ?case by simp
next
  case (Suc n)
  have unroll: "(\<Sum>m<2 * Suc n. f m) = (\<Sum>m<2 * n. f m) + f (2 * n) + f (Suc (2 * n))"
    for f :: "nat \<Rightarrow> real"
    by simp
  have c0: "sin_coeff (2 * n) = 0"
    by (simp add: sin_coeff_def)
  have c1: "sin_coeff (Suc (2 * n)) = (- 1) ^ n / fact (Suc (2 * n))"
    by (simp add: sin_coeff_def)
  have "(\<Sum>m<2 * Suc n. sin_coeff m * x ^ m) =
        (\<Sum>m<2 * n. sin_coeff m * x ^ m) + sin_coeff (2 * n) * x ^ (2 * n)
          + sin_coeff (Suc (2 * n)) * x ^ Suc (2 * n)"
    by (rule unroll)
  also have "\<dots> = (\<Sum>k<n. (- 1) ^ k * sin_term x k) + 0 * x ^ (2 * n)
          + (- 1) ^ n / fact (Suc (2 * n)) * x ^ Suc (2 * n)"
    by (simp only: Suc.IH c0 c1)
  also have "\<dots> = (\<Sum>k<Suc n. (- 1) ^ k * sin_term x k)"
    by (simp add: sin_term_def)
  finally show ?case .
qed

lemma sin_taylor:
  assumes "0 \<le> x"
  shows "\<bar>sin x - (\<Sum>k<n. (- 1) ^ k * sin_term x k)\<bar> \<le> sin_term x n"
proof -
  have "sin_coeff (2 * n) = 0"
    by (simp add: sin_coeff_def)
  then have "(\<Sum>m<Suc (2 * n). sin_coeff m * x ^ m) = (\<Sum>k<n. (- 1) ^ k * sin_term x k)"
    by (simp add: maclaurin_sum)
  moreover have "inverse (fact (Suc (2 * n))) * \<bar>x\<bar> ^ Suc (2 * n) = sin_term x n"
    using assms by (simp add: sin_term_def field_simps)
  ultimately show ?thesis
    using Maclaurin_sin_bound [of x "Suc (2 * n)"] by simp
qed

lemma div_lower:
  assumes "0 < (d::int)" and "0 \<le> q" and "real_of_int l \<le> t"
  shows "real_of_int (l * q div d) \<le> t * real_of_int q / real_of_int d"
proof -
  have "real_of_int (l * q div d) \<le> real_of_int (l * q) / real_of_int d"
    by (rule real_of_int_div4)
  also have "\<dots> = real_of_int l * real_of_int q / real_of_int d" by simp
  also have "\<dots> \<le> t * real_of_int q / real_of_int d"
    using assms by (intro divide_right_mono mult_right_mono) simp_all
  finally show ?thesis .
qed

lemma div_upper:
  assumes "0 < (d::int)" and "0 \<le> q" and "t \<le> real_of_int u"
  shows "t * real_of_int q / real_of_int d \<le> real_of_int (u * q div d + 1)"
proof -
  have "t * real_of_int q / real_of_int d \<le> real_of_int u * real_of_int q / real_of_int d"
    using assms by (intro divide_right_mono mult_right_mono) simp_all
  also have "\<dots> = real_of_int (u * q) / real_of_int d" by simp
  also have "\<dots> \<le> real_of_int (u * q div d + 1)"
    using real_of_int_div3 [of "u * q" d] by simp
  finally show ?thesis .
qed

lemma scaled_step:
  fixes E P Q T A c :: real
  assumes "Q = P * P" and "P \<noteq> 0" and "c \<noteq> 0"
  shows "E * (T * ((A / P) * (A / P)) / c) = (E * T) * (A * A) / (Q * c)"
  using assms by (simp add: field_simps)

lemma sin_term_bounds:
  assumes "0 \<le> a"
  shows "real_of_int (sin_lo a k) \<le> 2 ^ 80 * sin_term (real_of_int a / 2 ^ 48) k
       \<and> 2 ^ 80 * sin_term (real_of_int a / 2 ^ 48) k \<le> real_of_int (sin_hi a k)
       \<and> 0 \<le> sin_lo a k"
proof (induction k)
  case 0
  show ?case using assms by (simp add: sin_term_def)
next
  case (Suc k)
  define x where "x = real_of_int a / 2 ^ 48"
  define c where "c = (2 * k + 2) * (2 * k + 3)"
  define d where "d = 2 ^ 96 * int c"
  define q where "q = a * a"
  define t where "t = 2 ^ 80 * sin_term x k"
  have c: "0 < c" by (simp add: c_def)
  then have "0 < int c" by (simp only: of_nat_0_less_iff)
  then have d: "0 < d" unfolding d_def by (intro mult_pos_pos) simp_all
  have q: "0 \<le> q" by (simp add: q_def)
  have rd: "real_of_int d = 2 ^ 96 * real c" by (simp add: d_def)
  have "2 ^ 80 * sin_term x (Suc k) = 2 ^ 80 * (sin_term x k * (x * x) / real c)"
    unfolding sin_term_Suc c_def by (rule refl)
  also have "\<dots> = (2 ^ 80 * sin_term x k) * (real_of_int a * real_of_int a) / (2 ^ 96 * real c)"
    unfolding x_def using c by (intro scaled_step) simp_all
  finally have step: "2 ^ 80 * sin_term x (Suc k) = t * real_of_int q / real_of_int d"
    by (simp add: t_def q_def rd)
  have IH: "real_of_int (sin_lo a k) \<le> t" "t \<le> real_of_int (sin_hi a k)" "0 \<le> sin_lo a k"
    using Suc by (simp_all add: t_def x_def)
  have lo_eq: "sin_lo a (Suc k) = sin_lo a k * q div d"
    by (simp add: q_def d_def c_def)
  have hi_eq: "sin_hi a (Suc k) = sin_hi a k * q div d + 1"
    by (simp add: q_def d_def c_def)
  have 1: "real_of_int (sin_lo a (Suc k)) \<le> 2 ^ 80 * sin_term x (Suc k)"
    unfolding step lo_eq using d q IH(1) by (rule div_lower)
  have 2: "2 ^ 80 * sin_term x (Suc k) \<le> real_of_int (sin_hi a (Suc k))"
    unfolding step hi_eq using d q IH(2) by (rule div_upper)
  have "0 \<le> sin_lo a k * q" using IH(3) q by simp
  then have 3: "0 \<le> sin_lo a (Suc k)"
    unfolding lo_eq using d by (simp add: pos_imp_zdiv_nonneg_iff)
  from 1 2 3 show ?case unfolding x_def by blast
qed

lemma alt_bounds:
  assumes "0 \<le> a"
  shows "real_of_int (alt_lo a n) \<le> 2 ^ 80 * (\<Sum>k<n. (- 1) ^ k * sin_term (real_of_int a / 2 ^ 48) k)
       \<and> 2 ^ 80 * (\<Sum>k<n. (- 1) ^ k * sin_term (real_of_int a / 2 ^ 48) k) \<le> real_of_int (alt_hi a n)"
proof (induction n)
  case 0
  show ?case by simp
next
  case (Suc n)
  from sin_term_bounds [OF assms, of n] Suc show ?case
    by (simp add: algebra_simps)
qed

lemma sin_enclosure:
  assumes "0 \<le> a"
  shows "real_of_int (alt_lo a n - sin_hi a n) \<le> 2 ^ 80 * sin (real_of_int a / 2 ^ 48)"
    and "2 ^ 80 * sin (real_of_int a / 2 ^ 48) \<le> real_of_int (alt_hi a n + sin_hi a n)"
proof -
  let ?x = "real_of_int a / 2 ^ 48"
  have x: "0 \<le> ?x" using assms by simp
  from sin_taylor [OF x, of n]
  have "(\<Sum>k<n. (- 1) ^ k * sin_term ?x k) - sin_term ?x n \<le> sin ?x"
    and "sin ?x \<le> (\<Sum>k<n. (- 1) ^ k * sin_term ?x k) + sin_term ?x n"
    by linarith+
  then have "2 ^ 80 * ((\<Sum>k<n. (- 1) ^ k * sin_term ?x k) - sin_term ?x n) \<le> 2 ^ 80 * sin ?x"
    and "2 ^ 80 * sin ?x \<le> 2 ^ 80 * ((\<Sum>k<n. (- 1) ^ k * sin_term ?x k) + sin_term ?x n)"
    by simp_all
  with alt_bounds [OF assms, of n] sin_term_bounds [OF assms, of n]
  show "real_of_int (alt_lo a n - sin_hi a n) \<le> 2 ^ 80 * sin ?x"
    and "2 ^ 80 * sin ?x \<le> real_of_int (alt_hi a n + sin_hi a n)"
    by (simp_all add: algebra_simps)
qed

text \<open>
  With 15 terms of the series, the sine of \<open>Math.PI\<close> is positive and the sine of the next
  double after it is negative.
\<close>

lemma eval_lo: "0 < alt_lo 884279719003555 15 - sin_hi 884279719003555 15"
  by code_simp

lemma eval_hi: "alt_hi 884279719003556 15 + sin_hi 884279719003556 15 < 0"
  by code_simp

lemma Math_PI_frac: "Math_PI = real_of_int 884279719003555 / 2 ^ 48"
  by (simp add: Math_PI_def)

lemma Math_PI_pos: "0 < Math_PI"
  by (simp add: Math_PI_def)

lemma Math_PI_gt_3: "3 < Math_PI"
  by (simp add: Math_PI_def)

lemma Math_PI_less_4: "Math_PI < 4"
  by (simp add: Math_PI_def)

lemma sin_Math_PI_pos: "0 < sin Math_PI"
proof -
  have "real_of_int 0 < real_of_int (alt_lo 884279719003555 15 - sin_hi 884279719003555 15)"
    using eval_lo by (simp only: of_int_less_iff)
  also have "\<dots> \<le> 2 ^ 80 * sin Math_PI"
    unfolding Math_PI_frac by (rule sin_enclosure) simp
  finally show ?thesis by simp
qed

lemma Math_PI_less_pi: "Math_PI < pi"
proof (rule ccontr)
  assume "\<not> Math_PI < pi"
  then have "pi \<le> Math_PI" by simp
  moreover have "Math_PI < 2 * pi" using Math_PI_less_4 pi_ge_two by linarith
  ultimately have "sin Math_PI \<le> 0" by (rule sin_le_zero)
  with sin_Math_PI_pos show False by simp
qed

lemma pi_less_next: "pi < Math_PI + 1 / 2 ^ 48"
proof (rule ccontr)
  assume "\<not> pi < Math_PI + 1 / 2 ^ 48"
  then have le: "Math_PI + 1 / 2 ^ 48 \<le> pi" by simp
  have eq: "Math_PI + 1 / 2 ^ 48 = real_of_int 884279719003556 / 2 ^ 48"
    by (simp add: Math_PI_def)
  have "0 \<le> Math_PI + 1 / 2 ^ 48" using Math_PI_pos by simp
  then have "0 \<le> sin (Math_PI + 1 / 2 ^ 48)" using le by (rule sin_ge_zero)
  then have "0 \<le> 2 ^ 80 * sin (real_of_int 884279719003556 / 2 ^ 48)"
    unfolding eq by simp
  also have "\<dots> \<le> real_of_int (alt_hi 884279719003556 15 + sin_hi 884279719003556 15)"
    by (rule sin_enclosure) simp
  also have "\<dots> < real_of_int 0"
    using eval_hi by (simp only: of_int_less_iff)
  finally show False by simp
qed

section \<open>The projected point on the sphere\<close>

lemma vlength_Fin:
  "vlength (Vector3 (Fin a) (Fin b) (Fin c)) = Fin (sqrt (a * a + b * b + c * c))"
proof -
  have "0 \<le> a * a + b * b + c * c" by simp
  then show ?thesis by (simp add: not_less)
qed

lemma newPosition_Fin:
  "newPosition \<lparr>latitude = Fin lat, longitude = Fin lon, altitude = a, velocity = v\<rparr> =
     Vector3
       (Fin (- (26 / 5) * sin ((90 - lat) * (Math_PI / 180)) * cos ((lon + 180) * (Math_PI / 180))))
       (Fin (26 / 5 * cos ((90 - lat) * (Math_PI / 180))))
       (Fin (26 / 5 * sin ((90 - lat) * (Math_PI / 180)) * sin ((lon + 180) * (Math_PI / 180))))"
  by (simp add: newPosition_def Let_def js_sub_def)

lemma sphere_identity:
  fixes r sp cp st ct :: real
  assumes "sp * sp + cp * cp = 1" and "st * st + ct * ct = 1"
  shows "(- r * sp * ct) * (- r * sp * ct) + (r * cp) * (r * cp) + (r * sp * st) * (r * sp * st) = r * r"
proof -
  have "(- r * sp * ct) * (- r * sp * ct) + (r * cp) * (r * cp) + (r * sp * st) * (r * sp * st)
      = r * r * (sp * sp * (st * st + ct * ct) + cp * cp)"
    by (simp add: algebra_simps)
  also have "\<dots> = r * r" using assms by simp
  finally show ?thesis .
qed

lemma sin_cos_sq: "sin (x::real) * sin x + cos x * cos x = 1"
  using sin_cos_squared_add [of x] by (simp add: power2_eq_square)

text \<open>
  C6. For every finite latitude and longitude, so for all latitudes in \<open>[-90, 90]\<close> and
  longitudes in \<open>[-180, 180]\<close>, the projected point lies at distance 5.2 from the origin.
  With exact arithmetic the distance is exactly the radius.
\<close>

theorem projection_on_sphere:
  "vlength (newPosition \<lparr>latitude = Fin lat, longitude = Fin lon, altitude = a, velocity = v\<rparr>)
     = Fin (26 / 5)"
proof -
  let ?phi = "(90 - lat) * (Math_PI / 180)"
  let ?theta = "(lon + 180) * (Math_PI / 180)"
  have "(- (26 / 5) * sin ?phi * cos ?theta) * (- (26 / 5) * sin ?phi * cos ?theta)
       + (26 / 5 * cos ?phi) * (26 / 5 * cos ?phi)
       + (26 / 5 * sin ?phi * sin ?theta) * (26 / 5 * sin ?phi * sin ?theta) = (26 / 5) * (26 / 5 :: real)"
    by (rule sphere_identity) (rule sin_cos_sq)+
  then have "sqrt ((- (26 / 5) * sin ?phi * cos ?theta) * (- (26 / 5) * sin ?phi * cos ?theta)
       + (26 / 5 * cos ?phi) * (26 / 5 * cos ?phi)
       + (26 / 5 * sin ?phi * sin ?theta) * (26 / 5 * sin ?phi * sin ?theta))
       = sqrt ((26 / 5) * (26 / 5))"
    by (rule arg_cong)
  also have "\<dots> = 26 / 5"
    unfolding real_sqrt_abs2 by simp
  finally have "sqrt ((- (26 / 5) * sin ?phi * cos ?theta) * (- (26 / 5) * sin ?phi * cos ?theta)
       + (26 / 5 * cos ?phi) * (26 / 5 * cos ?phi)
       + (26 / 5 * sin ?phi * sin ?theta) * (26 / 5 * sin ?phi * sin ?theta)) = 26 / 5" .
  then show ?thesis
    unfolding newPosition_Fin vlength_Fin by (rule arg_cong)
qed

theorem projection_on_sphere_witness:
  "vlength (newPosition \<lparr>latitude = Fin (515074 / 10000), longitude = Fin (- (1278 / 10000)),
      altitude = Fin 408, velocity = Fin (766 / 100)\<rparr>) = Fin (26 / 5)
   \<and> - 90 \<le> (515074 / 10000 :: real) \<and> (515074 / 10000 :: real) \<le> 90
   \<and> - 180 \<le> (- (1278 / 10000) :: real) \<and> (- (1278 / 10000) :: real) \<le> 180"
  using projection_on_sphere [of "515074 / 10000" "- (1278 / 10000)" "Fin 408" "Fin (766 / 100)"]
  by simp

text \<open>
  The antimeridian. Longitude \<open>-180\<close> gives \<open>theta = 0\<close> and longitude \<open>180\<close> gives
  \<open>theta = 2 * Math.PI\<close>, which is a little less than a full turn.
\<close>

lemma sin_two_Math_PI_neg: "sin (2 * Math_PI) < 0"
proof -
  have "sin (2 * Math_PI) = - sin (2 * pi - 2 * Math_PI)" by simp
  moreover have "0 < sin (2 * pi - 2 * Math_PI)"
    using Math_PI_less_pi Math_PI_gt_3 pi_less_4 by (intro sin_gt_zero) linarith+
  ultimately show ?thesis by simp
qed

lemma sin_half_Math_PI_pos: "0 < sin (Math_PI / 2)"
  using Math_PI_less_pi Math_PI_pos by (intro sin_gt_zero) linarith+

text \<open>
  Exact equality fails: the projections of \<open>(0, -180)\<close> and \<open>(0, 180)\<close> are two
  different points, the first with \<open>z = 0\<close> and the second with \<open>z < 0\<close>.
\<close>

theorem antimeridian_points_differ:
  "newPosition \<lparr>latitude = Fin 0, longitude = Fin (- 180), altitude = Fin 408, velocity = Fin (766 / 100)\<rparr>
   \<noteq> newPosition \<lparr>latitude = Fin 0, longitude = Fin 180, altitude = Fin 408, velocity = Fin (766 / 100)\<rparr>"
proof -
  have "sin (Math_PI / 2) \<noteq> 0" and "sin (2 * Math_PI) \<noteq> 0"
    using sin_half_Math_PI_pos sin_two_Math_PI_neg by simp_all
  then show ?thesis by (simp add: newPosition_Fin)
qed

lemma sin_two_Math_PI_small: "\<bar>sin (2 * Math_PI)\<bar> \<le> 2 / 2 ^ 48"
proof -
  have "sin (2 * Math_PI) = - sin (2 * pi - 2 * Math_PI)" by simp
  then have "\<bar>sin (2 * Math_PI)\<bar> = \<bar>sin (2 * pi - 2 * Math_PI)\<bar>" by simp
  also have "\<dots> \<le> \<bar>2 * pi - 2 * Math_PI\<bar>" by (rule abs_sin_x_le_abs_x)
  also have "\<dots> \<le> 2 / 2 ^ 48" using Math_PI_less_pi pi_less_next by simp
  finally show ?thesis .
qed

lemma cos_two_Math_PI_near_1: "\<bar>1 - cos (2 * Math_PI)\<bar> \<le> 2 / 2 ^ 48"
proof -
  have s: "\<bar>sin Math_PI\<bar> \<le> 1 / 2 ^ 48"
  proof -
    have "sin Math_PI = sin (pi - Math_PI)" by simp
    then have "\<bar>sin Math_PI\<bar> = \<bar>sin (pi - Math_PI)\<bar>" by simp
    also have "\<dots> \<le> \<bar>pi - Math_PI\<bar>" by (rule abs_sin_x_le_abs_x)
    also have "\<dots> \<le> 1 / 2 ^ 48" using Math_PI_less_pi pi_less_next by simp
    finally show ?thesis .
  qed
  have "1 - cos (2 * Math_PI) = 2 * (sin Math_PI * sin Math_PI)"
    using sin_cos_sq [of Math_PI] by (simp add: cos_double power2_eq_square)
  also have "\<dots> = 2 * (\<bar>sin Math_PI\<bar> * \<bar>sin Math_PI\<bar>)" by simp
  also have "\<dots> \<le> 2 * (1 / 2 ^ 48 * 1)"
    using s by (intro mult_left_mono mult_mono) simp_all
  finally have "1 - cos (2 * Math_PI) \<le> 2 / 2 ^ 48" by simp
  moreover have "0 \<le> 1 - cos (2 * Math_PI)" by simp
  ultimately show ?thesis by simp
qed

lemma factor_out: "- r * s * 1 - - r * s * c = - r * s * (1 - c)" for r s c :: real
  by (simp add: algebra_simps)

text \<open>
  C7, as amended. At latitude 0, and at every other latitude, the projections at
  longitudes \<open>-180\<close> and \<open>180\<close> have the same \<open>y\<close> and differ by at most \<open>10^-13\<close> in \<open>x\<close>
  and in \<open>z\<close>.
\<close>

theorem antimeridian_points_near:
  "vecNear (1 / 10 ^ 13)
     (newPosition \<lparr>latitude = Fin lat, longitude = Fin (- 180), altitude = a, velocity = v\<rparr>)
     (newPosition \<lparr>latitude = Fin lat, longitude = Fin 180, altitude = a, velocity = v\<rparr>)
   \<and> vy (newPosition \<lparr>latitude = Fin lat, longitude = Fin (- 180), altitude = a, velocity = v\<rparr>)
     = vy (newPosition \<lparr>latitude = Fin lat, longitude = Fin 180, altitude = a, velocity = v\<rparr>)"
proof -
  let ?s = "sin ((90 - lat) * (Math_PI / 180))"
  have s1: "\<bar>?s\<bar> \<le> 1" by simp
  have x: "\<bar>- (26 / 5) * ?s * 1 - - (26 / 5) * ?s * cos (2 * Math_PI)\<bar> \<le> 1 / 10 ^ 13"
  proof -
    have "- (26 / 5) * ?s * 1 - - (26 / 5) * ?s * cos (2 * Math_PI)
        = - (26 / 5) * ?s * (1 - cos (2 * Math_PI))"
      by (rule factor_out)
    then have "\<bar>- (26 / 5) * ?s * 1 - - (26 / 5) * ?s * cos (2 * Math_PI)\<bar>
        = 26 / 5 * (\<bar>?s\<bar> * \<bar>1 - cos (2 * Math_PI)\<bar>)"
      by (simp add: abs_mult)
    also have "\<dots> \<le> 26 / 5 * (1 * (2 / 2 ^ 48))"
      using s1 cos_two_Math_PI_near_1 by (intro mult_left_mono mult_mono) simp_all
    also have "\<dots> \<le> 1 / 10 ^ 13" by simp
    finally show ?thesis .
  qed
  have z: "\<bar>26 / 5 * ?s * 0 - 26 / 5 * ?s * sin (2 * Math_PI)\<bar> \<le> 1 / 10 ^ 13"
  proof -
    have "\<bar>26 / 5 * ?s * 0 - 26 / 5 * ?s * sin (2 * Math_PI)\<bar>
        = 26 / 5 * (\<bar>?s\<bar> * \<bar>sin (2 * Math_PI)\<bar>)"
      by (simp add: abs_mult)
    also have "\<dots> \<le> 26 / 5 * (1 * (2 / 2 ^ 48))"
      using s1 sin_two_Math_PI_small by (intro mult_left_mono mult_mono) simp_all
    also have "\<dots> \<le> 1 / 10 ^ 13" by simp
    finally show ?thesis .
  qed
  from x z show ?thesis
    by (simp add: newPosition_Fin vecNear_def)
qed

theorem antimeridian_points_near_witness:
  "vecNear (1 / 10 ^ 13)
     (newPosition \<lparr>latitude = Fin 0, longitude = Fin (- 180), altitude = Fin 408, velocity = Fin (766 / 100)\<rparr>)
     (newPosition \<lparr>latitude = Fin 0, longitude = Fin 180, altitude = Fin 408, velocity = Fin (766 / 100)\<rparr>)"
  using antimeridian_points_near [of 0 "Fin 408" "Fin (766 / 100)"] by blast

section \<open>The future arc\<close>

text \<open>The loop over \<open>i\<close> from 1 to \<open>FUTURE_POINTS\<close> collects one point for each \<open>i\<close>.\<close>

lemma futureLoop_map:
  "i \<le> Suc FUTURE_POINTS \<Longrightarrow>
   futureLoop l n r i acc = acc @ map (futurePoint l n r) [i..<Suc FUTURE_POINTS]"
proof (induction l n r i acc rule: futureLoop.induct)
  case (1 l n r i acc)
  show ?case
  proof (cases "i \<le> FUTURE_POINTS")
    case True
    then have "futureLoop l n r i acc = futureLoop l n r (i + 1) (acc @ [futurePoint l n r i])"
      by (subst futureLoop.simps) simp
    also have "\<dots> = (acc @ [futurePoint l n r i]) @ map (futurePoint l n r) [i + 1..<Suc FUTURE_POINTS]"
      using True by (intro "1.IH") simp_all
    also have "\<dots> = acc @ map (futurePoint l n r) [i..<Suc FUTURE_POINTS]"
      using True by (simp add: upt_conv_Cons del: upt_Suc)
    finally show ?thesis .
  next
    case False
    with "1.prems" have "i = Suc FUTURE_POINTS" by simp
    then show ?thesis by (subst futureLoop.simps) simp
  qed
qed

lemma vecFinite_cases:
  assumes "vecFinite p"
  obtains a b c where "p = Vector3 (Fin a) (Fin b) (Fin c)"
proof -
  obtain x y z where p: "p = Vector3 x y z" by (cases p)
  from assms p obtain a b c where "x = Fin a" "y = Fin b" "z = Fin c"
    by (cases x; cases y; cases z) (simp_all add: vecFinite_def)
  with p that show ?thesis by simp
qed

lemma vlength_norm3: "vlength (Vector3 (Fin a) (Fin b) (Fin c)) = Fin (norm3 a b c)"
  unfolding norm3_def by (rule vlength_Fin)

lemma normalize_Fin:
  "normalize (Vector3 (Fin a) (Fin b) (Fin c)) =
     Vector3 (Fin (a * (1 / orOne (norm3 a b c)))) (Fin (b * (1 / orOne (norm3 a b c))))
             (Fin (c * (1 / orOne (norm3 a b c))))"
  unfolding normalize_def divideScalar_def vlength_norm3
  by (simp add: orOne_def)

lemma rotate_Fin:
  "applyMatrix4 (Vector3 (Fin a) (Fin b) (Fin c))
     (makeRotationAxis (Vector3 (Fin u1) (Fin u2) (Fin u3)) (Fin th)) =
   Vector3
     (Fin (((1 - cos th) * u1 * u1 + cos th) * a + ((1 - cos th) * u1 * u2 - sin th * u3) * b
           + ((1 - cos th) * u1 * u3 + sin th * u2) * c))
     (Fin (((1 - cos th) * u1 * u2 + sin th * u3) * a + ((1 - cos th) * u2 * u2 + cos th) * b
           + ((1 - cos th) * u2 * u3 - sin th * u1) * c))
     (Fin (((1 - cos th) * u1 * u3 - sin th * u2) * a + ((1 - cos th) * u2 * u3 + sin th * u1) * b
           + ((1 - cos th) * u3 * u3 + cos th) * c))"
  by (simp add: applyMatrix4_def makeRotationAxis_def Let_def js_sub_def)

text \<open>The matrix of \<open>makeRotationAxis\<close> for a unit axis keeps the length of a vector.\<close>

lemma rotation_preserves_norm:
  fixes a b c u1 u2 u3 co si :: real
  assumes u: "u1 * u1 + u2 * u2 + u3 * u3 = 1" and cs: "co * co + si * si = 1"
  defines "t \<equiv> 1 - co"
  defines "q1 \<equiv> (t * u1 * u1 + co) * a + (t * u1 * u2 - si * u3) * b + (t * u1 * u3 + si * u2) * c"
      and "q2 \<equiv> (t * u1 * u2 + si * u3) * a + (t * u2 * u2 + co) * b + (t * u2 * u3 - si * u1) * c"
      and "q3 \<equiv> (t * u1 * u3 - si * u2) * a + (t * u2 * u3 + si * u1) * b + (t * u3 * u3 + co) * c"
  shows "q1 * q1 + q2 * q2 + q3 * q3 = a * a + b * b + c * c"
  using u cs unfolding q1_def q2_def q3_def t_def
  by algebra

lemma norm3_nonneg: "0 \<le> norm3 a b c"
  by (simp add: norm3_def)

lemma norm3_scale: "0 \<le> k \<Longrightarrow> norm3 (a * k) (b * k) (c * k) = norm3 a b c * k"
proof -
  assume k: "0 \<le> k"
  have "(a * k) * (a * k) + (b * k) * (b * k) + (c * k) * (c * k) = (a * a + b * b + c * c) * (k * k)"
    by (simp add: algebra_simps)
  then have "norm3 (a * k) (b * k) (c * k) = sqrt ((a * a + b * b + c * c) * (k * k))"
    unfolding norm3_def by (rule arg_cong)
  also have "\<dots> = norm3 a b c * k"
    using k by (simp add: real_sqrt_mult norm3_def)
  finally show ?thesis .
qed

lemma norm3_zero: "norm3 a b c = 0 \<Longrightarrow> a = 0 \<and> b = 0 \<and> c = 0"
proof -
  assume "norm3 a b c = 0"
  then have "a * a + b * b + c * c = 0" by (simp add: norm3_def)
  moreover have "0 \<le> a * a" "0 \<le> b * b" "0 \<le> c * c" by simp_all
  ultimately have "a * a = 0" "b * b = 0" "c * c = 0" by linarith+
  then show ?thesis by simp
qed

text \<open>A normalised vector is the zero vector or a unit vector.\<close>

lemma normalized_unit:
  assumes "norm3 a b c \<noteq> 0"
  defines "d \<equiv> orOne (norm3 a b c)"
  shows "(a * (1 / d)) * (a * (1 / d)) + (b * (1 / d)) * (b * (1 / d)) + (c * (1 / d)) * (c * (1 / d)) = 1"
proof -
  have d: "d = norm3 a b c" using assms by (simp add: orOne_def)
  have sq: "norm3 a b c * norm3 a b c = a * a + b * b + c * c"
    by (simp add: norm3_def)
  have "(a * (1 / d)) * (a * (1 / d)) + (b * (1 / d)) * (b * (1 / d)) + (c * (1 / d)) * (c * (1 / d))
      = (a * a + b * b + c * c) / (d * d)"
    by (simp add: add_divide_distrib)
  also have "\<dots> = 1" using assms(1) unfolding d sq [symmetric] by simp
  finally show ?thesis .
qed

text \<open>Rescaling to the radius: the result has length \<open>\<rho>\<close> unless a nonzero vector collapsed.\<close>

lemma rescaled_length:
  assumes "0 \<le> rho" and "norm3 q1 q2 q3 = k * rho" and "0 < k"
  defines "d \<equiv> orOne (norm3 q1 q2 q3)"
  shows "norm3 (q1 * (1 / d) * rho) (q2 * (1 / d) * rho) (q3 * (1 / d) * rho) = rho"
proof (cases "rho = 0")
  case True
  then show ?thesis by (simp add: norm3_def)
next
  case False
  with assms have pos: "0 < norm3 q1 q2 q3" by simp
  then have d: "d = norm3 q1 q2 q3" by (simp add: d_def orOne_def)
  have "0 \<le> 1 / d * rho" using pos assms(1) d by simp
  then have "norm3 (q1 * (1 / d * rho)) (q2 * (1 / d * rho)) (q3 * (1 / d * rho))
      = norm3 q1 q2 q3 * (1 / d * rho)"
    by (rule norm3_scale)
  also have "\<dots> = rho" using pos d by simp
  finally show ?thesis by (simp add: mult.assoc)
qed

lemma angle_Fin:
  "js_div (js_mul (js_div (Fin (real i)) (Fin (real FUTURE_POINTS))) (Fin Math_PI)) (Fin 2)
     = Fin (real i / 200 * Math_PI / 2)"
  by (simp add: FUTURE_POINTS_def)

lemma cos_angle_pos:
  assumes "1 \<le> i" and "i \<le> FUTURE_POINTS"
  shows "0 < cos (real i / 200 * Math_PI / 2)"
proof -
  define t where "t = real i / 200 * Math_PI"
  have i: "0 < real i" "real i \<le> 200" using assms by (simp_all add: FUTURE_POINTS_def)
  then have pos: "0 < real i / 200" and le: "real i / 200 \<le> 1" by simp_all
  have "0 < t" unfolding t_def using pos Math_PI_pos by (rule mult_pos_pos)
  moreover have "t \<le> 1 * Math_PI"
    unfolding t_def using le Math_PI_pos by (intro mult_right_mono) simp_all
  ultimately have "0 < t / 2" and "t / 2 < pi / 2" using Math_PI_less_pi by simp_all
  then have "0 < cos (t / 2)" by (rule cos_gt_zero)
  then show ?thesis by (simp add: t_def)
qed

text \<open>
  In exact arithmetic each point of the arc has the length of the last point: the axis is a unit vector and
  the rotation keeps the length, or the axis is zero and the matrix is \<open>cos angle\<close> times
  the identity, with \<open>cos angle > 0\<close> because the angle stays below \<open>Math.PI / 2 < \<pi> / 2\<close>.
\<close>

lemma futurePoint_length:
  assumes i: "1 \<le> i" "i \<le> FUTURE_POINTS"
      and axis: "(u1 = 0 \<and> u2 = 0 \<and> u3 = 0) \<or> u1 * u1 + u2 * u2 + u3 * u3 = 1"
  shows "vlength (futurePoint (Vector3 (Fin a) (Fin b) (Fin c)) (Vector3 (Fin u1) (Fin u2) (Fin u3))
           (Fin (norm3 a b c)) i) = Fin (norm3 a b c)"
proof -
  define th where "th = real i / 200 * Math_PI / 2"
  define co where "co = cos th"
  define si where "si = sin th"
  define q1 where "q1 = ((1 - co) * u1 * u1 + co) * a + ((1 - co) * u1 * u2 - si * u3) * b
           + ((1 - co) * u1 * u3 + si * u2) * c"
  define q2 where "q2 = ((1 - co) * u1 * u2 + si * u3) * a + ((1 - co) * u2 * u2 + co) * b
           + ((1 - co) * u2 * u3 - si * u1) * c"
  define q3 where "q3 = ((1 - co) * u1 * u3 - si * u2) * a + ((1 - co) * u2 * u3 + si * u1) * b
           + ((1 - co) * u3 * u3 + co) * c"
  define d where "d = orOne (norm3 q1 q2 q3)"
  have co: "0 < co" unfolding co_def th_def using i by (rule cos_angle_pos)
  have cs: "co * co + si * si = 1"
    unfolding co_def si_def using sin_cos_sq [of th] by (simp add: add.commute)
  have "\<exists>k. 0 < k \<and> norm3 q1 q2 q3 = k * norm3 a b c"
    using axis
  proof
    assume z: "u1 = 0 \<and> u2 = 0 \<and> u3 = 0"
    then have "q1 = a * co" "q2 = b * co" "q3 = c * co"
      by (simp_all add: q1_def q2_def q3_def)
    then have "norm3 q1 q2 q3 = norm3 a b c * co"
      using co by (simp add: norm3_scale)
    with co show ?thesis by (intro exI [of _ co]) (simp add: mult.commute)
  next
    assume u: "u1 * u1 + u2 * u2 + u3 * u3 = 1"
    have "q1 * q1 + q2 * q2 + q3 * q3 = a * a + b * b + c * c"
      unfolding q1_def q2_def q3_def using u cs by (rule rotation_preserves_norm)
    then have "norm3 q1 q2 q3 = norm3 a b c" by (simp add: norm3_def)
    then show ?thesis by (intro exI [of _ 1]) simp
  qed
  then obtain k where k: "0 < k" "norm3 q1 q2 q3 = k * norm3 a b c" by blast
  have len: "norm3 (q1 * (1 / d) * norm3 a b c) (q2 * (1 / d) * norm3 a b c) (q3 * (1 / d) * norm3 a b c)
      = norm3 a b c"
    unfolding d_def using norm3_nonneg k(2) k(1) by (rule rescaled_length)
  have "futurePoint (Vector3 (Fin a) (Fin b) (Fin c)) (Vector3 (Fin u1) (Fin u2) (Fin u3))
           (Fin (norm3 a b c)) i
      = Vector3 (Fin (q1 * (1 / d) * norm3 a b c)) (Fin (q2 * (1 / d) * norm3 a b c))
          (Fin (q3 * (1 / d) * norm3 a b c))"
    unfolding futurePoint_def Let_def angle_Fin rotate_Fin normalize_Fin
    by (simp add: q1_def q2_def q3_def d_def co_def si_def th_def)
  then show ?thesis by (simp only: vlength_norm3 len)
qed

lemma normalized_axis:
  "normalize (Vector3 (Fin n1) (Fin n2) (Fin n3)) = Vector3 (Fin u1) (Fin u2) (Fin u3) \<Longrightarrow>
   (u1 = 0 \<and> u2 = 0 \<and> u3 = 0) \<or> u1 * u1 + u2 * u2 + u3 * u3 = 1"
proof -
  assume n: "normalize (Vector3 (Fin n1) (Fin n2) (Fin n3)) = Vector3 (Fin u1) (Fin u2) (Fin u3)"
  then have u: "u1 = n1 * (1 / orOne (norm3 n1 n2 n3))" "u2 = n2 * (1 / orOne (norm3 n1 n2 n3))"
    "u3 = n3 * (1 / orOne (norm3 n1 n2 n3))"
    unfolding normalize_Fin by simp_all
  show ?thesis
  proof (cases "norm3 n1 n2 n3 = 0")
    case True
    then have "n1 = 0 \<and> n2 = 0 \<and> n3 = 0" by (rule norm3_zero)
    with u show ?thesis by simp
  next
    case False
    then show ?thesis unfolding u by (intro disjI2 normalized_unit)
  qed
qed

lemma futurePoints_arc:
  assumes fin: "list_all vecFinite vs" and len: "2 \<le> length vs"
  shows "length (futurePoints vs) = 200
       \<and> list_all (\<lambda>q. vlength q = vlength (last vs)) (futurePoints vs)"
proof -
  let ?p = "vs ! (length vs - 1)" and ?p' = "vs ! (length vs - 2)"
  have "?p \<in> set vs" "?p' \<in> set vs" using len by simp_all
  then have "vecFinite ?p" "vecFinite ?p'" using fin by (simp_all add: list_all_iff)
  then obtain a b c a' b' c' where p: "?p = Vector3 (Fin a) (Fin b) (Fin c)"
    and p': "?p' = Vector3 (Fin a') (Fin b') (Fin c')"
    by (elim vecFinite_cases) blast
  have "vs \<noteq> []" using len by auto
  then have last: "last vs = Vector3 (Fin a) (Fin b) (Fin c)"
    using p by (simp add: last_conv_nth)
  define n1 where "n1 = b * (c - c') - c * (b - b')"
  define n2 where "n2 = c * (a - a') - a * (c - c')"
  define n3 where "n3 = a * (b - b') - b * (a - a')"
  have cross: "crossVectors (Vector3 (Fin a) (Fin b) (Fin c))
        (subVectors (Vector3 (Fin a) (Fin b) (Fin c)) (Vector3 (Fin a') (Fin b') (Fin c')))
      = Vector3 (Fin n1) (Fin n2) (Fin n3)"
    by (simp add: js_sub_def n1_def n2_def n3_def)
  obtain u1 u2 u3 where u: "normalize (Vector3 (Fin n1) (Fin n2) (Fin n3)) = Vector3 (Fin u1) (Fin u2) (Fin u3)"
    unfolding normalize_Fin by blast
  then have axis: "(u1 = 0 \<and> u2 = 0 \<and> u3 = 0) \<or> u1 * u1 + u2 * u2 + u3 * u3 = 1"
    by (rule normalized_axis)
  have fp: "futurePoints vs = map (futurePoint (Vector3 (Fin a) (Fin b) (Fin c))
       (Vector3 (Fin u1) (Fin u2) (Fin u3)) (Fin (norm3 a b c))) [1..<Suc FUTURE_POINTS]"
    using len unfolding futurePoints_def Let_def p p' cross u vlength_norm3
    by (simp add: futureLoop_map del: upt_Suc)
  have "length (futurePoints vs) = 200"
    unfolding fp by (simp add: FUTURE_POINTS_def)
  moreover have "list_all (\<lambda>q. vlength q = vlength (last vs)) (futurePoints vs)"
    unfolding fp last vlength_norm3 list_all_iff
  proof
    fix q
    assume "q \<in> set (map (futurePoint (Vector3 (Fin a) (Fin b) (Fin c))
       (Vector3 (Fin u1) (Fin u2) (Fin u3)) (Fin (norm3 a b c))) [1..<Suc FUTURE_POINTS])"
    then obtain i where i: "1 \<le> i" "i \<le> FUTURE_POINTS"
      and q: "q = futurePoint (Vector3 (Fin a) (Fin b) (Fin c))
       (Vector3 (Fin u1) (Fin u2) (Fin u3)) (Fin (norm3 a b c)) i"
      by (auto simp del: upt_Suc)
    show "vlength q = Fin (norm3 a b c)"
      unfolding q using i axis by (rule futurePoint_length)
  qed
  ultimately show ?thesis by blast
qed

lemma vecFinite_not_NaN: "vecFinite p \<Longrightarrow> \<not> vecNaN p"
  by (cases p; cases "vx p"; cases "vy p"; cases "vz p") (simp_all add: vecFinite_def vecNaN_def)

lemma updateOrbitLine_future:
  assumes "\<not> vecNaN position"
  shows "futureLine (updateOrbitLine s position) =
     futurePoints (filter (\<lambda>p. \<not> vecNaN p) (orbitPoints (updateOrbitLine s position)))"
proof -
  define pushed where "pushed = orbitPoints s @ [position]"
  define points where "points = (if length pushed > MAX_TRAIL_LENGTH then tl pushed else pushed)"
  have valid: "(\<lambda>p. \<not> isNaN (vx p) \<and> \<not> isNaN (vy p) \<and> \<not> isNaN (vz p)) = (\<lambda>p. \<not> vecNaN p)"
    by (simp add: vecNaN_def)
  have "position \<in> set points"
  proof (cases "orbitPoints s")
    case Nil
    then show ?thesis by (simp add: points_def pushed_def MAX_TRAIL_LENGTH_def)
  next
    case (Cons q qs)
    then show ?thesis by (simp add: points_def pushed_def)
  qed
  then have ne: "filter (\<lambda>p. \<not> vecNaN p) points \<noteq> []"
    using assms by (auto simp: filter_empty_conv)
  have eq: "updateOrbitLine s position =
      (if length (filter (\<lambda>p. \<not> vecNaN p) points) = 0 then s\<lparr>orbitPoints := points\<rparr>
       else s\<lparr>orbitPoints := points, pastLine := filter (\<lambda>p. \<not> vecNaN p) points,
              futureLine := futurePoints (filter (\<lambda>p. \<not> vecNaN p) points)\<rparr>)"
    using assms
    by (simp add: updateOrbitLine_def Let_def valid vecNaN_def [symmetric] points_def pushed_def)
  show ?thesis unfolding eq using ne by simp
qed

lemma updateOrbitLine_set:
  "set (orbitPoints (updateOrbitLine s position)) \<subseteq> insert position (set (orbitPoints s))"
proof (cases "vecNaN position")
  case True
  then show ?thesis by (auto simp: updateOrbitLine_rejects)
next
  case False
  then show ?thesis
    by (cases "orbitPoints s") (auto simp: updateOrbitLine_points dest: list.set_sel(2))
qed

text \<open>
  The size of the future arc does not depend on the arithmetic: after an accepted update
  the arc is empty when the buffer holds fewer than 2 valid points and has exactly 200
  points otherwise, whatever the coordinates are.
\<close>

lemma futurePoints_length:
  "length (futurePoints vs) = (if 2 \<le> length vs then 200 else 0)"
  by (simp add: futurePoints_def Let_def futureLoop_map FUTURE_POINTS_def del: upt_Suc)

lemma future_arc_count:
  assumes "\<not> vecNaN position"
  shows "length (futureLine (updateOrbitLine s position)) =
     (if 2 \<le> length (filter (\<lambda>p. \<not> vecNaN p) (orbitPoints (updateOrbitLine s position)))
      then 200 else 0)"
  unfolding updateOrbitLine_future [OF assms] by (rule futurePoints_length)

text \<open>
  The radius of the arc in exact arithmetic. Take a buffer whose points with no NaN
  coordinate are finite, and update it with a finite point. With the exact arithmetic of
  this model each of the 200 points lies at the distance from the origin of the last
  valid point, also when the orbital-plane normal is the zero vector (the last two points
  equal or opposite). This is a statement about the formulas only. The program computes
  \<open>normalize().multiplyScalar(radius)\<close> and \<open>length()\<close> in doubles, with rounding after
  every operation and with \<open>Math.sin\<close>, \<open>Math.cos\<close> and \<open>Math.sqrt\<close> as the engine
  approximates them, so there the distances agree up to rounding and not bit for bit; the
  model does not say by how much.
\<close>

lemma future_arc_exact:
  fixes s :: globe and position :: vec
  assumes "list_all (\<lambda>p. vecNaN p \<or> vecFinite p) (orbitPoints s)" and "vecFinite position"
  defines "s' \<equiv> updateOrbitLine s position"
  defines "validPoints \<equiv> filter (\<lambda>p. \<not> vecNaN p) (orbitPoints s')"
  shows "(length validPoints < 2 \<longrightarrow> futureLine s' = [])
       \<and> (2 \<le> length validPoints \<longrightarrow>
            length (futureLine s') = 200
            \<and> list_all (\<lambda>q. vlength q = vlength (last validPoints)) (futureLine s'))"
proof -
  have nn: "\<not> vecNaN position" using assms(2) by (rule vecFinite_not_NaN)
  have fl: "futureLine s' = futurePoints validPoints"
    unfolding s'_def validPoints_def using nn by (rule updateOrbitLine_future)
  have "set (orbitPoints s') \<subseteq> insert position (set (orbitPoints s))"
    unfolding s'_def by (rule updateOrbitLine_set)
  then have fin: "list_all vecFinite validPoints"
    using assms(1,2) by (auto simp: validPoints_def list_all_iff)
  show ?thesis
  proof (cases "2 \<le> length validPoints")
    case True
    with futurePoints_arc [OF fin True] show ?thesis by (simp add: fl)
  next
    case False
    then show ?thesis by (simp add: fl futurePoints_def)
  qed
qed

lemma future_arc_exact_instance:
  "vecFinite (Vector3 (Fin 0) (Fin 1) (Fin 0))
   \<and> length (futureLine (updateOrbitLine (readyGlobe\<lparr>orbitPoints := [Vector3 (Fin 0) (Fin 1) (Fin 0)]\<rparr>)
        (Vector3 (Fin 0) (Fin 1) (Fin 0)))) = 200
   \<and> list_all (\<lambda>q. vlength q = Fin 1)
       (futureLine (updateOrbitLine (readyGlobe\<lparr>orbitPoints := [Vector3 (Fin 0) (Fin 1) (Fin 0)]\<rparr>)
        (Vector3 (Fin 0) (Fin 1) (Fin 0))))
   \<and> futureLine (updateOrbitLine (readyGlobe\<lparr>orbitPoints := []\<rparr>) (Vector3 (Fin 0) (Fin 1) (Fin 0))) = []"
proof -
  let ?p = "Vector3 (Fin 0) (Fin 1) (Fin 0)"
  let ?s = "readyGlobe\<lparr>orbitPoints := [?p]\<rparr>"
  let ?e = "readyGlobe\<lparr>orbitPoints := []\<rparr>"
  have f: "vecFinite ?p" by (simp add: vecFinite_def)
  have n: "\<not> vecNaN ?p" by (simp add: vecNaN_def)
  have h: "list_all (\<lambda>p. vecNaN p \<or> vecFinite p) (orbitPoints ?s)"
    by (simp add: vecFinite_def)
  have he: "list_all (\<lambda>p. vecNaN p \<or> vecFinite p) (orbitPoints ?e)"
    by simp
  have pts: "orbitPoints (updateOrbitLine ?s ?p) = [?p, ?p]"
    using n by (simp add: updateOrbitLine_points MAX_TRAIL_LENGTH_def)
  have pte: "orbitPoints (updateOrbitLine ?e ?p) = [?p]"
    using n by (simp add: updateOrbitLine_points MAX_TRAIL_LENGTH_def)
  from future_arc_exact [OF h f] future_arc_exact [OF he f] f n show ?thesis
    by (simp add: pts pte vlength_Fin)
qed

text \<open>
  The buffers that \<open>updateISSPosition\<close> builds hold finite points only, so the lemma
  applies to every buffer the component can reach.
\<close>

lemma updateISSPosition_finite:
  assumes "list_all vecFinite (orbitPoints s)"
  shows "list_all vecFinite (orbitPoints (updateISSPosition s position))"
proof (cases "isFinite (latitude position) \<and> isFinite (longitude position)")
  case True
  then have "vecFinite (newPosition position)" by (simp add: newPosition_finite)
  moreover have "set (orbitPoints (updateOrbitLine (s\<lparr>issMarker := Some (newPosition position)\<rparr>) (newPosition position)))
      \<subseteq> insert (newPosition position) (set (orbitPoints s))"
    using updateOrbitLine_set [of "s\<lparr>issMarker := Some (newPosition position)\<rparr>"] by simp
  ultimately show ?thesis
    using assms by (auto simp: updateISSPosition_def Let_def list_all_iff)
next
  case False
  then have "vx (newPosition position) = NaN"
    by (intro newPosition_nonfinite) blast
  then have "updateISSPosition s position = s"
    by (simp add: updateISSPosition_def Let_def)
  with assms show ?thesis by simp
qed

lemma reachable_finite:
  "list_all vecFinite (orbitPoints s) \<Longrightarrow>
   list_all vecFinite (orbitPoints (foldl updateISSPosition s positions))"
  by (induction positions arbitrary: s) (simp_all add: updateISSPosition_finite)

end
